theory Spec2Isabelle
  imports Main "HOL-Library.Word"
begin

section \<open>Media service: blob store, record lifecycle, gateway relay\<close>

text \<open>
  A shallow embedding of the media pipeline of the work-schedule backend:
  \<^item> \<open>storage/local.go\<close>: \<open>LocalStorage\<close> (Save, Delete, Get) over the file system;
  \<^item> the Postgres repository of \<open>media_files\<close> (Create, GetByID, Delete) and the table's
    schema;
  \<^item> \<open>usecase.go\<close>: \<open>MediaUseCase\<close> (UploadFile, GetFile, DeleteFile);
  \<^item> the gateway's \<open>MediaHandler.UploadFile\<close>, which relays a multipart file as frames.
  Effects are explicit: every operation takes the state it acts on and returns the new
  one; every Go \<open>error\<close> return is the \<open>Inl\<close> of a sum.
\<close>

subsection \<open>Bytes, errors\<close>

type_synonym byte = "8 word"

text \<open>What the operating system reports (package \<open>os\<close>): \<open>os.IsNotExist\<close> holds of
  \<open>ENOENT\<close> only. \<open>EREJECTED\<close> stands for the refusals that depend on the medium and not
  on the entry: a name longer than the medium allows (\<open>ENAMETOOLONG\<close>), a directory on
  the path that may not be searched or written (\<open>EACCES\<close>), a read-only file system
  (\<open>EROFS\<close>), a full disk (\<open>ENOSPC\<close>).\<close>

datatype os_error = ENOENT | EISDIR | ENOTDIR | ENOTEMPTY | EREJECTED

definition os_IsNotExist :: "os_error \<Rightarrow> bool" where
  "os_IsNotExist e = (e = ENOENT)"

datatype sql_error = ErrNoRows | ErrConnection | ErrConstraint

text \<open>The errors of the service: the three sentinels of \<open>usecase.go\<close>, the wrapped
  errors of \<open>local.go\<close> (\<open>fmt.Errorf("failed to ...: %w", err)\<close>: message and cause), the
  errors of \<open>database/sql\<close>, and the protocol violation of the upload session.\<close>

datatype error =
    ErrFileNotFound
  | ErrInvalidFileType
  | ErrUploadFailed
  | Wrapped string os_error
  | SqlError sql_error
  | ProtocolViolation

subsection \<open>Package \<open>path/filepath\<close> (Unix): Base, Clean, Join\<close>

definition Separator :: char where
  "Separator = CHR ''/''"

text \<open>\<open>filepath.Base\<close>: the last element of the path. Trailing slashes are stripped first;
  the empty path gives \<open>"."\<close>, a path of slashes only gives \<open>"/"\<close>.\<close>

definition filepath_Base :: "string \<Rightarrow> string" where
  "filepath_Base path =
     (if path = [] then ''.''
      else let stripped = rev (dropWhile (\<lambda>c. c = Separator) (rev path));
               elem = rev (takeWhile (\<lambda>c. c \<noteq> Separator) (rev stripped))
           in if elem = [] then [Separator] else elem)"

text \<open>\<open>strings.Split(path, "/")\<close> and \<open>strings.Join(elems, "/")\<close>.\<close>

fun split_sep :: "string \<Rightarrow> string list" where
  "split_sep [] = [[]]"
| "split_sep (c # cs) =
     (if c = Separator then [] # split_sep cs
      else (case split_sep cs of
              [] \<Rightarrow> [[c]]
            | w # ws \<Rightarrow> (c # w) # ws))"

fun join_sep :: "string list \<Rightarrow> string" where
  "join_sep [] = []"
| "join_sep [e] = e"
| "join_sep (e # es) = e @ [Separator] @ join_sep es"

text \<open>\<open>filepath.Clean\<close>, element by element: empty elements and \<open>"."\<close> are dropped; \<open>".."\<close>
  removes the element before it when there is one to remove, is dropped at the root of a
  rooted path, and is kept at the front of a relative one. The empty result is \<open>"."\<close>.\<close>

definition clean_elem :: "bool \<Rightarrow> string list \<Rightarrow> string \<Rightarrow> string list" where
  "clean_elem rooted out e =
     (if e = [] \<or> e = ''.'' then out
      else if e = ''..'' then
        (if out \<noteq> [] \<and> last out \<noteq> ''..'' then butlast out
         else if rooted then out
         else out @ [''..''])
      else out @ [e])"

definition filepath_Clean :: "string \<Rightarrow> string" where
  "filepath_Clean path =
     (if path = [] then ''.''
      else let rooted = (hd path = Separator);
               out = foldl (clean_elem rooted) [] (split_sep path);
               s = (if rooted then [Separator] else []) @ join_sep out
           in if s = [] then ''.'' else s)"

text \<open>\<open>filepath.Dir\<close>: the path up to its last separator, cleaned.\<close>

definition filepath_Dir :: "string \<Rightarrow> string" where
  "filepath_Dir path = filepath_Clean (rev (dropWhile (\<lambda>c. c \<noteq> Separator) (rev path)))"

text \<open>\<open>filepath.Join\<close>: leading empty elements are ignored, the rest is joined with the
  separator and cleaned; with no non-empty element the result is the empty string.\<close>

definition filepath_Join :: "string list \<Rightarrow> string" where
  "filepath_Join elem =
     (case dropWhile (\<lambda>e. e = []) elem of
        [] \<Rightarrow> []
      | es \<Rightarrow> filepath_Clean (join_sep es))"

subsection \<open>The file system\<close>

text \<open>The storage medium is a map from paths to entries: a regular file with its bytes,
  or a directory. \<open>rejects\<close> says which mutations the medium refuses (permission denied,
  disk full, ...); the theorems hold whatever it is.\<close>

datatype entry = File "byte list" | Dir

datatype fsop = OpCreate | OpWrite | OpRemove

record filesystem =
  entries :: "string \<rightharpoonup> entry"
  rejects :: "fsop \<Rightarrow> string \<Rightarrow> bool"

text \<open>\<open>os.MkdirAll\<close>: an existing directory is success, a regular file in the way an
  error. Only the directory itself is recorded; no operation here reads its ancestors.\<close>

definition os_MkdirAll :: "string \<Rightarrow> filesystem \<Rightarrow> (os_error + unit) \<times> filesystem" where
  "os_MkdirAll path fs =
     (if path = [] then (Inl ENOENT, fs)
      else (case entries fs (filepath_Clean path) of
              Some Dir \<Rightarrow> (Inr (), fs)
            | Some (File _) \<Rightarrow> (Inl ENOTDIR, fs)
            | None \<Rightarrow>
                if rejects fs OpCreate (filepath_Clean path) then (Inl EREJECTED, fs)
                else (Inr (), fs\<lparr>entries := (entries fs)(filepath_Clean path \<mapsto> Dir)\<rparr>)))"

text \<open>\<open>os.Create\<close>: creates the file or truncates the one that exists
  (\<open>O_RDWR|O_CREATE|O_TRUNC\<close>); a directory cannot be opened for writing.\<close>

definition os_Create :: "string \<Rightarrow> filesystem \<Rightarrow> (os_error + unit) \<times> filesystem" where
  "os_Create path fs =
     (if path = [] then (Inl ENOENT, fs)
      else (case entries fs path of
              Some Dir \<Rightarrow> (Inl EISDIR, fs)
            | _ \<Rightarrow>
                if rejects fs OpCreate path then (Inl EREJECTED, fs)
                else (Inr (), fs\<lparr>entries := (entries fs)(path \<mapsto> File [])\<rparr>)))"

text \<open>\<open>file.Write(data)\<close> on the file just created: the bytes written are the content; a
  refused write leaves the truncated file.\<close>

definition file_Write :: "string \<Rightarrow> byte list \<Rightarrow> filesystem \<Rightarrow> (os_error + nat) \<times> filesystem" where
  "file_Write path data fs =
     (if rejects fs OpWrite path then (Inl EREJECTED, fs)
      else (Inr (length data), fs\<lparr>entries := (entries fs)(path \<mapsto> File data)\<rparr>))"

text \<open>A directory has children when some other entry lies directly in it.\<close>

definition has_children :: "filesystem \<Rightarrow> string \<Rightarrow> bool" where
  "has_children fs dir = (\<exists>p. p \<noteq> dir \<and> entries fs p \<noteq> None \<and> filepath_Dir p = dir)"

text \<open>\<open>os.Remove\<close> (\<open>unlink\<close>, then \<open>rmdir\<close>). The medium may refuse the removal whether
  or not the entry exists (a name longer than it allows, a component of the path that is
  not a directory or may not be searched, a read-only medium): then the error is not
  \<open>ENOENT\<close>. Otherwise a missing entry is \<open>ENOENT\<close>, a regular file is removed, and a
  directory is removed when it is empty and is \<open>ENOTEMPTY\<close> when it is not.\<close>

definition os_Remove :: "string \<Rightarrow> filesystem \<Rightarrow> (os_error + unit) \<times> filesystem" where
  "os_Remove path fs =
     (if rejects fs OpRemove path then (Inl EREJECTED, fs)
      else (case entries fs path of
              None \<Rightarrow> (Inl ENOENT, fs)
            | Some (File _) \<Rightarrow> (Inr (), fs\<lparr>entries := (entries fs)(path := None)\<rparr>)
            | Some Dir \<Rightarrow>
                if has_children fs path then (Inl ENOTEMPTY, fs)
                else (Inr (), fs\<lparr>entries := (entries fs)(path := None)\<rparr>)))"

text \<open>\<open>os.Open\<close> gives the entry to read; \<open>io.ReadAll\<close> reads a regular file to its end and
  fails on a directory.\<close>

definition os_Open :: "string \<Rightarrow> filesystem \<Rightarrow> os_error + entry" where
  "os_Open path fs = (case entries fs path of None \<Rightarrow> Inl ENOENT | Some e \<Rightarrow> Inr e)"

definition io_ReadAll :: "entry \<Rightarrow> os_error + byte list" where
  "io_ReadAll e = (case e of Dir \<Rightarrow> Inl EISDIR | File bs \<Rightarrow> Inr bs)"

subsection \<open>\<open>LocalStorage\<close> (storage/local.go)\<close>

record LocalStorage =
  basePath :: string
  baseURL :: string

definition NewLocalStorage ::
  "string \<Rightarrow> string \<Rightarrow> filesystem \<Rightarrow> (error + LocalStorage) \<times> filesystem" where
  "NewLocalStorage bp bu fs =
     (case os_MkdirAll bp fs of
        (Inl e, fs') \<Rightarrow> (Inl (Wrapped ''failed to create storage directory'' e), fs')
      | (Inr _, fs') \<Rightarrow> (Inr \<lparr>basePath = bp, baseURL = bu\<rparr>, fs'))"

definition LocalStorage_Save ::
  "LocalStorage \<Rightarrow> string \<Rightarrow> byte list \<Rightarrow> filesystem \<Rightarrow> (error + string) \<times> filesystem" where
  "LocalStorage_Save s fileName data fs =
     (let filePath = filepath_Join [basePath s, fileName] in
      case os_Create filePath fs of
        (Inl e, fs1) \<Rightarrow> (Inl (Wrapped ''failed to create file'' e), fs1)
      | (Inr _, fs1) \<Rightarrow>
          (case file_Write filePath data fs1 of
             (Inl e, fs2) \<Rightarrow> (Inl (Wrapped ''failed to write file'' e), fs2)
           | (Inr _, fs2) \<Rightarrow> (Inr (baseURL s @ ''/'' @ fileName), fs2)))"

definition LocalStorage_Delete ::
  "LocalStorage \<Rightarrow> string \<Rightarrow> filesystem \<Rightarrow> (error + unit) \<times> filesystem" where
  "LocalStorage_Delete s fileURL fs =
     (let fileName = filepath_Base fileURL;
          filePath = filepath_Join [basePath s, fileName] in
      case os_Remove filePath fs of
        (Inl e, fs1) \<Rightarrow>
          if os_IsNotExist e then (Inr (), fs1)
          else (Inl (Wrapped ''failed to delete file'' e), fs1)
      | (Inr _, fs1) \<Rightarrow> (Inr (), fs1))"

definition LocalStorage_Get ::
  "LocalStorage \<Rightarrow> string \<Rightarrow> filesystem \<Rightarrow> error + byte list" where
  "LocalStorage_Get s fileURL fs =
     (let fileName = filepath_Base fileURL;
          filePath = filepath_Join [basePath s, fileName] in
      case os_Open filePath fs of
        Inl e \<Rightarrow> Inl (Wrapped ''failed to open file'' e)
      | Inr file \<Rightarrow>
          (case io_ReadAll file of
             Inl e \<Rightarrow> Inl (Wrapped ''failed to read file'' e)
           | Inr data \<Rightarrow> Inr data))"

text \<open>What \<open>NewLocalStorage\<close> leaves behind: a non-empty root path that is a directory.\<close>

definition storage_ready :: "LocalStorage \<Rightarrow> filesystem \<Rightarrow> bool" where
  "storage_ready s fs =
     (basePath s \<noteq> [] \<and> entries fs (filepath_Clean (basePath s)) = Some Dir)"

text \<open>The path under which the blob of a locator is looked up by Delete and Get.\<close>

definition blob_path :: "LocalStorage \<Rightarrow> string \<Rightarrow> string" where
  "blob_path s fileURL = filepath_Join [basePath s, filepath_Base fileURL]"

subsection \<open>Time\<close>

text \<open>A reading of \<open>time.Now()\<close>, to the second. \<open>time_Format\<close> is
  \<open>Format("20060102150405")\<close>: the fields in decimal, zero-padded to 4 and 2 digits.\<close>

record time =
  Year :: nat
  Month :: nat
  Day :: nat
  Hour :: nat
  Minute :: nat
  Second :: nat

definition zero_time :: time where
  "zero_time = \<lparr>Year = 1, Month = 1, Day = 1, Hour = 0, Minute = 0, Second = 0\<rparr>"

definition digit :: "nat \<Rightarrow> char" where
  "digit d = (if d < 10 then ''0123456789'' ! d else CHR ''?'')"

fun decimal :: "nat \<Rightarrow> string" where
  "decimal n = (if n < 10 then [digit n] else decimal (n div 10) @ [digit (n mod 10)])"

definition zero_pad :: "nat \<Rightarrow> nat \<Rightarrow> string" where
  "zero_pad width n = replicate (width - length (decimal n)) (CHR ''0'') @ decimal n"

definition time_Format :: "time \<Rightarrow> string" where
  "time_Format t =
     zero_pad 4 (Year t) @ zero_pad 2 (Month t) @ zero_pad 2 (Day t) @
     zero_pad 2 (Hour t) @ zero_pad 2 (Minute t) @ zero_pad 2 (Second t)"

subsection \<open>The entity (domain/entity)\<close>

record MediaFile =
  ID :: int
  FileName :: string
  FileURL :: string
  UploadedBy :: int
  UploadedAt :: time
  FileType :: string
  FileSize :: int

text \<open>\<open>&entity.MediaFile{}\<close>: every field at its zero value.\<close>

definition zero_MediaFile :: MediaFile where
  "zero_MediaFile =
     \<lparr>ID = 0, FileName = [], FileURL = [], UploadedBy = 0, UploadedAt = zero_time,
      FileType = [], FileSize = 0\<rparr>"

text \<open>\<open>NewMediaFile\<close>; \<open>now\<close> is what its \<open>time.Now()\<close> returns.\<close>

definition NewMediaFile :: "time \<Rightarrow> string \<Rightarrow> string \<Rightarrow> string \<Rightarrow> int \<Rightarrow> int \<Rightarrow> MediaFile" where
  "NewMediaFile now fileName fileURL fileType uploadedBy fileSize =
     \<lparr>ID = 0, FileName = fileName, FileURL = fileURL, UploadedBy = uploadedBy,
      UploadedAt = now, FileType = fileType, FileSize = fileSize\<rparr>"

definition FileTypeImage :: string where "FileTypeImage = ''image''"
definition FileTypeDocument :: string where "FileTypeDocument = ''document''"
definition FileTypeResume :: string where "FileTypeResume = ''resume''"

definition ValidFileTypes :: "string list" where
  "ValidFileTypes = [FileTypeImage, FileTypeDocument, FileTypeResume]"

text \<open>The loop of \<open>IsValidFileType\<close>: true at the first equal element.\<close>

fun range_has :: "string list \<Rightarrow> string \<Rightarrow> bool" where
  "range_has [] fileType = False"
| "range_has (t # ts) fileType = (if t = fileType then True else range_has ts fileType)"

definition IsValidFileType :: "string \<Rightarrow> bool" where
  "IsValidFileType fileType = range_has ValidFileTypes fileType"

subsection \<open>The table \<open>media_files\<close> and its Postgres repository\<close>

text \<open>A row has the six columns of the schema: \<open>id SERIAL PRIMARY KEY\<close>,
  \<open>file_name VARCHAR(255)\<close>, \<open>file_url TEXT\<close>, \<open>uploaded_by INT REFERENCES users(id)\<close>,
  \<open>uploaded_at TIMESTAMP\<close>, \<open>file_type VARCHAR(50)\<close>. There is no column for the size.\<close>

record media_row =
  col_id :: int
  col_file_name :: string
  col_file_url :: string
  col_uploaded_by :: int
  col_uploaded_at :: time
  col_file_type :: string

text \<open>The database: the rows of \<open>media_files\<close>, the next value of its id sequence, the
  ids of the table \<open>users\<close>, and whether the connection works.\<close>

record database =
  media_files :: "media_row list"
  media_files_id_seq :: int
  users :: "int list"
  connected :: bool

text \<open>The constraints of the schema on an inserted row: the lengths of the two
  \<open>VARCHAR\<close> columns and the foreign key of \<open>uploaded_by\<close>. A refused insert leaves the
  table as it was.\<close>

definition row_accepted :: "database \<Rightarrow> MediaFile \<Rightarrow> bool" where
  "row_accepted d file =
     (length (FileName file) \<le> 255 \<and> length (FileType file) \<le> 50 \<and>
      UploadedBy file \<in> set (users d))"

text \<open>\<open>Create\<close>: \<open>INSERT ... (file_name, file_url, uploaded_by, uploaded_at, file_type)
  RETURNING id\<close>, the id scanned into \<open>file.ID\<close>. \<open>file.FileSize\<close> is not among the
  values.\<close>

definition Repo_Create :: "MediaFile \<Rightarrow> database \<Rightarrow> (error + MediaFile) \<times> database" where
  "Repo_Create file d =
     (if \<not> connected d then (Inl (SqlError ErrConnection), d)
      else if \<not> row_accepted d file then (Inl (SqlError ErrConstraint), d)
      else
        let new_id = media_files_id_seq d;
            row = \<lparr>col_id = new_id, col_file_name = FileName file,
                   col_file_url = FileURL file, col_uploaded_by = UploadedBy file,
                   col_uploaded_at = UploadedAt file, col_file_type = FileType file\<rparr>
        in (Inr (file\<lparr>ID := new_id\<rparr>),
            d\<lparr>media_files := media_files d @ [row], media_files_id_seq := new_id + 1\<rparr>))"

text \<open>\<open>GetByID\<close>: \<open>SELECT id, file_name, file_url, uploaded_by, uploaded_at, file_type ...
  WHERE id = $1\<close>, scanned into a fresh \<open>MediaFile\<close>; \<open>QueryRow\<close> takes the first row and
  gives \<open>sql.ErrNoRows\<close> when there is none.\<close>

definition Repo_GetByID :: "int \<Rightarrow> database \<Rightarrow> error + MediaFile" where
  "Repo_GetByID id' d =
     (if \<not> connected d then Inl (SqlError ErrConnection)
      else (case filter (\<lambda>r. col_id r = id') (media_files d) of
              [] \<Rightarrow> Inl (SqlError ErrNoRows)
            | r # _ \<Rightarrow>
                Inr (zero_MediaFile\<lparr>ID := col_id r, FileName := col_file_name r,
                       FileURL := col_file_url r, UploadedBy := col_uploaded_by r,
                       UploadedAt := col_uploaded_at r, FileType := col_file_type r\<rparr>)))"

text \<open>\<open>Delete\<close>: \<open>DELETE FROM media_files WHERE id = $1\<close>; no row to delete is no error.\<close>

definition Repo_Delete :: "int \<Rightarrow> database \<Rightarrow> (error + unit) \<times> database" where
  "Repo_Delete id' d =
     (if \<not> connected d then (Inl (SqlError ErrConnection), d)
      else (Inr (), d\<lparr>media_files := filter (\<lambda>r. col_id r \<noteq> id') (media_files d)\<rparr>))"

subsection \<open>The interfaces (domain/repository) and the use case (usecase.go)\<close>

text \<open>An implementation of an interface is a record of its methods, each a transformer
  of the world \<open>'w\<close> it acts on. The repository's \<open>Delete\<close> is \<open>Delete_record\<close> here: a
  second field \<open>Delete\<close> is not allowed.\<close>

record 'w FileStorage =
  Save :: "string \<Rightarrow> byte list \<Rightarrow> 'w \<Rightarrow> (error + string) \<times> 'w"
  Delete :: "string \<Rightarrow> 'w \<Rightarrow> (error + unit) \<times> 'w"
  Get :: "string \<Rightarrow> 'w \<Rightarrow> (error + byte list) \<times> 'w"

record 'w MediaFileRepository =
  Create :: "MediaFile \<Rightarrow> 'w \<Rightarrow> (error + MediaFile) \<times> 'w"
  GetByID :: "int \<Rightarrow> 'w \<Rightarrow> (error + MediaFile) \<times> 'w"
  Delete_record :: "int \<Rightarrow> 'w \<Rightarrow> (error + unit) \<times> 'w"

record 'w MediaUseCase =
  fileRepo :: "'w MediaFileRepository"
  storage :: "'w FileStorage"

definition NewMediaUseCase :: "'w MediaFileRepository \<Rightarrow> 'w FileStorage \<Rightarrow> 'w MediaUseCase" where
  "NewMediaUseCase r st = \<lparr>fileRepo = r, storage = st\<rparr>"

text \<open>\<open>filepath.Ext\<close>: the suffix from the last dot of the last element, or empty.\<close>

definition filepath_Ext :: "string \<Rightarrow> string" where
  "filepath_Ext path =
     (let elem = rev (takeWhile (\<lambda>c. c \<noteq> Separator) (rev path)) in
      if CHR ''.'' \<in> set elem
      then CHR ''.'' # rev (takeWhile (\<lambda>c. c \<noteq> CHR ''.'') (rev elem))
      else [])"

text \<open>\<open>UploadFile\<close>. The clock is read twice: \<open>tName\<close> is the reading formatted into the
  unique name, \<open>tRec\<close> the one \<open>NewMediaFile\<close> stores. The result of the cleanup \<open>Delete\<close>
  is dropped (\<open>_ = uc.storage.Delete(ctx, fileURL)\<close>).\<close>

definition UploadFile ::
  "'w MediaUseCase \<Rightarrow> time \<Rightarrow> time \<Rightarrow> string \<Rightarrow> string \<Rightarrow> int \<Rightarrow> byte list \<Rightarrow> 'w
     \<Rightarrow> (error + MediaFile) \<times> 'w" where
  "UploadFile uc tName tRec fileName fileType uploadedBy data w =
     (if \<not> IsValidFileType fileType then (Inl ErrInvalidFileType, w)
      else
        let ext = filepath_Ext fileName;
            uniqueName = time_Format tName @ ''_'' @ fileName in
        case Save (storage uc) uniqueName data w of
          (Inl err, w1) \<Rightarrow> (Inl ErrUploadFailed, w1)
        | (Inr fileURL, w1) \<Rightarrow>
            let file0 = NewMediaFile tRec fileName fileURL fileType uploadedBy
                          (int (length data));
                file = (if ext \<noteq> [] then file0\<lparr>FileName := fileName\<rparr> else file0) in
            (case Create (fileRepo uc) file w1 of
               (Inl err, w2) \<Rightarrow> (Inl err, snd (Delete (storage uc) fileURL w2))
             | (Inr created, w2) \<Rightarrow> (Inr created, w2)))"

definition GetFile :: "'w MediaUseCase \<Rightarrow> int \<Rightarrow> 'w \<Rightarrow> (error + MediaFile) \<times> 'w" where
  "GetFile uc id' w =
     (case GetByID (fileRepo uc) id' w of
        (Inl err, w1) \<Rightarrow> (Inl ErrFileNotFound, w1)
      | (Inr file, w1) \<Rightarrow> (Inr file, w1))"

definition DeleteFile :: "'w MediaUseCase \<Rightarrow> int \<Rightarrow> 'w \<Rightarrow> (error + unit) \<times> 'w" where
  "DeleteFile uc id' w =
     (case GetByID (fileRepo uc) id' w of
        (Inl err, w1) \<Rightarrow> (Inl ErrFileNotFound, w1)
      | (Inr file, w1) \<Rightarrow>
          (case Delete (storage uc) (FileURL file) w1 of
             (Inl err, w2) \<Rightarrow> (Inl err, w2)
           | (Inr _, w2) \<Rightarrow> Delete_record (fileRepo uc) id' w2))"

subsection \<open>The service as \<open>main.go\<close> wires it\<close>

record world =
  fs :: filesystem
  db :: database

definition PostgresMediaFileRepository :: "world MediaFileRepository" where
  "PostgresMediaFileRepository =
     \<lparr>Create = (\<lambda>file w. case Repo_Create file (db w) of (r, d) \<Rightarrow> (r, w\<lparr>db := d\<rparr>)),
      GetByID = (\<lambda>id' w. (Repo_GetByID id' (db w), w)),
      Delete_record = (\<lambda>id' w. case Repo_Delete id' (db w) of (r, d) \<Rightarrow> (r, w\<lparr>db := d\<rparr>))\<rparr>"

definition LocalFileStorage :: "LocalStorage \<Rightarrow> world FileStorage" where
  "LocalFileStorage s =
     \<lparr>Save = (\<lambda>fileName data w.
                case LocalStorage_Save s fileName data (fs w) of (r, f) \<Rightarrow> (r, w\<lparr>fs := f\<rparr>)),
      Delete = (\<lambda>fileURL w.
                case LocalStorage_Delete s fileURL (fs w) of (r, f) \<Rightarrow> (r, w\<lparr>fs := f\<rparr>)),
      Get = (\<lambda>fileURL w. (LocalStorage_Get s fileURL (fs w), w))\<rparr>"

definition media_service :: "LocalStorage \<Rightarrow> world MediaUseCase" where
  "media_service s = NewMediaUseCase PostgresMediaFileRepository (LocalFileStorage s)"

subsection \<open>Observing which methods a use case calls\<close>

text \<open>A spy around the two collaborators of a use case: every method does what the
  wrapped one does and appends its call to a log kept beside the world. The use case is
  written against the interfaces, so it runs on the wrapped collaborators unchanged, and
  the log tells which methods it invoked, in which order, with which arguments.\<close>

datatype call =
    CallSave string "byte list"
  | CallDelete string
  | CallGet string
  | CallCreate MediaFile
  | CallGetByID int
  | CallDeleteRecord int

definition logged :: "call \<Rightarrow> ('w \<Rightarrow> 'r \<times> 'w) \<Rightarrow> 'w \<times> call list \<Rightarrow> 'r \<times> ('w \<times> call list)" where
  "logged c m wl = (case m (fst wl) of (r, w') \<Rightarrow> (r, (w', snd wl @ [c])))"

definition traced :: "'w MediaUseCase \<Rightarrow> ('w \<times> call list) MediaUseCase" where
  "traced uc =
     \<lparr>fileRepo =
        \<lparr>Create = (\<lambda>file. logged (CallCreate file) (Create (fileRepo uc) file)),
         GetByID = (\<lambda>id'. logged (CallGetByID id') (GetByID (fileRepo uc) id')),
         Delete_record = (\<lambda>id'. logged (CallDeleteRecord id') (Delete_record (fileRepo uc) id'))\<rparr>,
      storage =
        \<lparr>Save = (\<lambda>fileName data. logged (CallSave fileName data) (Save (storage uc) fileName data)),
         Delete = (\<lambda>fileURL. logged (CallDelete fileURL) (Delete (storage uc) fileURL)),
         Get = (\<lambda>fileURL. logged (CallGet fileURL) (Get (storage uc) fileURL))\<rparr>\<rparr>"

subsection \<open>The streaming protocol: frames and the client's stream\<close>

text \<open>\<open>pb.UploadFileRequest\<close>: its \<open>Data\<close> is either the metadata or a chunk of bytes.\<close>

record FileMetadata =
  meta_FileName :: string
  meta_FileType :: string
  meta_UploadedBy :: int

datatype frame = Metadata FileMetadata | Chunk "byte list"

text \<open>The bytes a sequence of frames carries: its chunks, concatenated in order.\<close>

fun payload :: "frame list \<Rightarrow> byte list" where
  "payload [] = []"
| "payload (Metadata m # frs) = payload frs"
| "payload (Chunk bs # frs) = bs @ payload frs"

text \<open>The client's end of the stream: the frames sent so far, after how many frames the
  transport breaks (if it does), and what the server answers to the frames it got when
  the client closes.\<close>

record stream =
  sent :: "frame list"
  breaks_after :: "nat option"
  reply :: "frame list \<Rightarrow> error + MediaFile"

datatype transport_error = Unavailable

definition stream_Send :: "frame \<Rightarrow> stream \<Rightarrow> (transport_error + unit) \<times> stream" where
  "stream_Send fr st =
     (case breaks_after st of
        None \<Rightarrow> (Inr (), st\<lparr>sent := sent st @ [fr]\<rparr>)
      | Some k \<Rightarrow>
          if k \<le> length (sent st) then (Inl Unavailable, st)
          else (Inr (), st\<lparr>sent := sent st @ [fr]\<rparr>))"

definition stream_CloseAndRecv :: "stream \<Rightarrow> error + MediaFile" where
  "stream_CloseAndRecv st = reply st (sent st)"

subsection \<open>The gateway relay: \<open>MediaHandler.UploadFile\<close>\<close>

definition MaxFileSize :: nat where
  "MaxFileSize = 10 * 2 ^ 20"

definition ChunkSize :: nat where
  "ChunkSize = 64 * 1024"

text \<open>The opened multipart file is an \<open>io.Reader\<close>: the bytes not yet read, and how the
  coming calls of \<open>Read\<close> behave: \<open>Some k\<close> delivers at most \<open>k\<close> bytes, \<open>None\<close> fails; once the
  list is used up a \<open>Read\<close> fills the buffer. A \<open>Read\<close> never delivers more than the buffer
  holds. At the end of the bytes \<open>Read\<close> returns \<open>io.EOF\<close> with no bytes, as the files
  \<open>FormFile\<close> opens do (a section reader over the parsed form, or an \<open>os.File\<close>).\<close>

record reader =
  unread :: "byte list"
  schedule :: "nat option list"

datatype read_result = ReadBytes "byte list" | ReadEOF | ReadFailure

definition file_Read :: "nat \<Rightarrow> reader \<Rightarrow> read_result \<times> reader" where
  "file_Read cap r =
     (if unread r = [] then (ReadEOF, r)
      else (case schedule r of
              [] \<Rightarrow> (ReadBytes (take cap (unread r)), r\<lparr>unread := drop cap (unread r)\<rparr>)
            | None # sch \<Rightarrow> (ReadFailure, r\<lparr>schedule := sch\<rparr>)
            | Some k # sch \<Rightarrow>
                (ReadBytes (take (min k cap) (unread r)),
                 r\<lparr>unread := drop (min k cap) (unread r), schedule := sch\<rparr>)))"

text \<open>The loop "2. Send Chunks": read into the buffer of \<open>ChunkSize\<close> bytes, stop at
  \<open>io.EOF\<close>, give up on any other error, send \<open>buffer[:n]\<close> as a chunk otherwise.\<close>

datatype loop_exit = AllSent | ReadFailed | SendFailed

function send_chunks :: "reader \<Rightarrow> stream \<Rightarrow> loop_exit \<times> stream" where
  "send_chunks r st =
     (case file_Read ChunkSize r of
        (ReadEOF, r') \<Rightarrow> (AllSent, st)
      | (ReadFailure, r') \<Rightarrow> (ReadFailed, st)
      | (ReadBytes bs, r') \<Rightarrow>
          (case stream_Send (Chunk bs) st of
             (Inl err, st') \<Rightarrow> (SendFailed, st')
           | (Inr u, st') \<Rightarrow> send_chunks r' st'))"
  by pat_completeness auto
termination
  apply (relation "measure (\<lambda>(r, st). length (unread r) + length (schedule r))")
   apply simp
  apply (auto simp: file_Read_def ChunkSize_def split: if_splits list.splits option.splits)
  done

text \<open>The request as the handler sees it: the length of the body, the part \<open>file\<close> of the
  form (its file name and the opened file) when there is one, the form field
  \<open>file_type\<close>, and the \<open>int64\<close> read from the context's \<open>user_id\<close> (0 when there is none).\<close>

record upload_request =
  body_length :: nat
  form_file :: "(string \<times> reader) option"
  post_file_type :: string
  user_id :: int

datatype http_response =
    StatusBadRequest string
  | StatusInternalServerError string
  | StatusCreated MediaFile

text \<open>\<open>MediaHandler.UploadFile\<close>. \<open>http.MaxBytesReader\<close> makes \<open>FormFile\<close>, which reads the
  whole body, fail on a body of more than \<open>MaxFileSize\<close> bytes. \<open>opened\<close> is the stream
  \<open>h.mediaClient.UploadFile(ctx)\<close> returns, \<open>None\<close> when it fails. The text of an error
  response is the fixed prefix of the handler's message, without the cause appended.\<close>

definition MediaHandler_UploadFile ::
  "upload_request \<Rightarrow> stream option \<Rightarrow> http_response \<times> stream option" where
  "MediaHandler_UploadFile req opened =
     (if MaxFileSize < body_length req then (StatusBadRequest ''File is required: '', opened)
      else (case form_file req of
        None \<Rightarrow> (StatusBadRequest ''File is required: '', opened)
      | Some (filename, file) \<Rightarrow>
          let fileType = (if post_file_type req = [] then ''document'' else post_file_type req);
              userID = user_id req in
          (case opened of
             None \<Rightarrow> (StatusInternalServerError ''Failed to start upload: '', None)
           | Some st \<Rightarrow>
               (case stream_Send
                       (Metadata \<lparr>meta_FileName = filename, meta_FileType = fileType,
                                  meta_UploadedBy = userID\<rparr>) st of
                  (Inl err, st1) \<Rightarrow>
                    (StatusInternalServerError ''Failed to send metadata: '', Some st1)
                | (Inr u, st1) \<Rightarrow>
                    (case send_chunks file st1 of
                       (ReadFailed, st2) \<Rightarrow>
                         (StatusInternalServerError ''Failed to read file: '', Some st2)
                     | (SendFailed, st2) \<Rightarrow>
                         (StatusInternalServerError ''Failed to send chunk: '', Some st2)
                     | (AllSent, st2) \<Rightarrow>
                         (case stream_CloseAndRecv st2 of
                            Inl err \<Rightarrow>
                              (StatusInternalServerError ''Upload failed: '', Some st2)
                          | Inr file' \<Rightarrow> (StatusCreated file', Some st2)))))))"

subsection \<open>The receiving side of an upload session\<close>

text \<open>Modelled from the spec: the media service's handler of the upload stream is missing
  from the sources (\<open>cmd/main.go\<close> builds the use case and registers no handler: "TODO:
  Register media service handler"). The state of a session is what the spec's data model
  lists: the metadata-received flag, the accumulated byte buffer, and the declared file
  name, upload type and uploader of the first frame.\<close>

record upload_session =
  metadata_received :: bool
  buffer :: "byte list"
  declared_name :: string
  declared_type :: string
  declared_uploader :: int

text \<open>Modelled from the spec: the state in which a session of the missing receiving side
  starts: no metadata received, an empty buffer.\<close>

definition new_session :: upload_session where
  "new_session =
     \<lparr>metadata_received = False, buffer = [], declared_name = [], declared_type = [],
      declared_uploader = 0\<rparr>"

text \<open>Modelled from the spec: the frame grammar of the receiving side, which is missing
  from the sources. The metadata frame must come first and once; a chunk is appended to
  the buffer unless the cumulative byte count would exceed the maximum. Each breach is a
  protocol violation.\<close>

definition receive_frame :: "nat \<Rightarrow> frame \<Rightarrow> upload_session \<Rightarrow> error + upload_session" where
  "receive_frame maximum fr ss =
     (case fr of
        Metadata m \<Rightarrow>
          if metadata_received ss then Inl ProtocolViolation
          else Inr (ss\<lparr>metadata_received := True, declared_name := meta_FileName m,
                       declared_type := meta_FileType m,
                       declared_uploader := meta_UploadedBy m\<rparr>)
      | Chunk bs \<Rightarrow>
          if \<not> metadata_received ss then Inl ProtocolViolation
          else if maximum < length (buffer ss) + length bs then Inl ProtocolViolation
          else Inr (ss\<lparr>buffer := buffer ss @ bs\<rparr>))"

text \<open>Modelled from the spec: the missing receiving side takes the frames in the order of
  receipt and stops at the first violation.\<close>

fun receive_frames :: "nat \<Rightarrow> frame list \<Rightarrow> upload_session \<Rightarrow> error + upload_session" where
  "receive_frames maximum [] ss = Inr ss"
| "receive_frames maximum (fr # frs) ss =
     (case receive_frame maximum fr ss of
        Inl err \<Rightarrow> Inl err
      | Inr ss' \<Rightarrow> receive_frames maximum frs ss')"

text \<open>Modelled from the spec: the session as a whole, which is missing from the sources.
  After the end-of-stream signal the receiver hands the buffer and the metadata of the
  first frame to the lifecycle (\<open>UploadFile\<close> of the use case, from the sources) and
  answers with its result; a session that broke the grammar fails without calling it.\<close>

definition serve_upload ::
  "'w MediaUseCase \<Rightarrow> nat \<Rightarrow> time \<Rightarrow> time \<Rightarrow> frame list \<Rightarrow> 'w \<Rightarrow> (error + MediaFile) \<times> 'w" where
  "serve_upload uc maximum tName tRec frames w =
     (case receive_frames maximum frames new_session of
        Inl err \<Rightarrow> (Inl err, w)
      | Inr ss \<Rightarrow>
          if \<not> metadata_received ss then (Inl ProtocolViolation, w)
          else UploadFile uc tName tRec (declared_name ss) (declared_type ss)
                 (declared_uploader ss) (buffer ss) w)"

subsection \<open>Example states\<close>

text \<open>The storage of the default configuration, a world in which the storage root
  exists, the tables are empty but for user 42, and nothing is refused; a clock reading.\<close>

definition default_storage :: LocalStorage where
  "default_storage = \<lparr>basePath = ''./uploads'', baseURL = ''http://localhost:50055/files''\<rparr>"

definition fresh_fs :: filesystem where
  "fresh_fs = \<lparr>entries = [''uploads'' \<mapsto> Dir], rejects = (\<lambda>_ _. False)\<rparr>"

definition fresh_db :: database where
  "fresh_db = \<lparr>media_files = [], media_files_id_seq = 1, users = [42], connected = True\<rparr>"

definition fresh_world :: world where
  "fresh_world = \<lparr>fs = fresh_fs, db = fresh_db\<rparr>"

definition noon :: time where
  "noon = \<lparr>Year = 2024, Month = 1, Day = 2, Hour = 12, Minute = 0, Second = 0\<rparr>"

text \<open>A world that holds one uploaded file: the row with id 1 and its blob.\<close>

definition stored_row :: media_row where
  "stored_row =
     \<lparr>col_id = 1, col_file_name = ''a.txt'',
      col_file_url = ''http://localhost:50055/files/20240102120000_a.txt'',
      col_uploaded_by = 42, col_uploaded_at = noon, col_file_type = ''document''\<rparr>"

definition stored_file :: MediaFile where
  "stored_file =
     \<lparr>ID = 1, FileName = ''a.txt'',
      FileURL = ''http://localhost:50055/files/20240102120000_a.txt'',
      UploadedBy = 42, UploadedAt = noon, FileType = ''document'', FileSize = 0\<rparr>"

definition stored_db :: database where
  "stored_db = fresh_db\<lparr>media_files := [stored_row], media_files_id_seq := 2\<rparr>"

definition stored_fs :: filesystem where
  "stored_fs =
     fresh_fs\<lparr>entries := (entries fresh_fs)(''uploads/20240102120000_a.txt'' \<mapsto> File [1, 2, 3])\<rparr>"

text \<open>The fresh world without user 42 (the insert of a row uploaded by 42 violates the
  foreign key), and the world of the uploaded file on a medium that refuses every
  removal.\<close>

definition unknown_user_world :: world where
  "unknown_user_world = \<lparr>fs = fresh_fs, db = fresh_db\<lparr>users := []\<rparr>\<rparr>"

definition locked_world :: world where
  "locked_world = \<lparr>fs = stored_fs\<lparr>rejects := (\<lambda>op _. op = OpRemove)\<rparr>, db = stored_db\<rparr>"

text \<open>The world of the uploaded file after its blob was removed out-of-band, on a medium
  that refuses every removal (the storage directory may no longer be written); and a
  medium that refuses names longer than 255 bytes, with a locator whose last segment has
  256.\<close>

definition blob_gone_refused_world :: world where
  "blob_gone_refused_world =
     \<lparr>fs = fresh_fs\<lparr>rejects := (\<lambda>op _. op = OpRemove)\<rparr>, db = stored_db\<rparr>"

definition NAME_MAX :: nat where
  "NAME_MAX = 255"

definition name_limit_fs :: filesystem where
  "name_limit_fs = fresh_fs\<lparr>rejects := (\<lambda>_ path. NAME_MAX < length (filepath_Base path))\<rparr>"

definition long_name :: string where
  "long_name = replicate 256 (CHR ''a'')"

definition long_locator :: string where
  "long_locator = ''http://localhost:50055/files/'' @ long_name"

text \<open>An upload request whose file of five bytes is delivered by reads of 2, 0, 1 and
  then the remaining bytes; a stream that never breaks, to a server that refuses.\<close>

definition five_bytes_request :: upload_request where
  "five_bytes_request =
     \<lparr>body_length = 200,
      form_file = Some (''a.txt'', \<lparr>unread = [1, 2, 3, 4, 5], schedule = [Some 2, Some 0, Some 1]\<rparr>),
      post_file_type = [], user_id = 42\<rparr>"

definition idle_stream :: stream where
  "idle_stream = \<lparr>sent = [], breaks_after = None, reply = (\<lambda>_. Inl ErrUploadFailed)\<rparr>"

definition a_txt_metadata :: FileMetadata where
  "a_txt_metadata = \<lparr>meta_FileName = ''a.txt'', meta_FileType = ''document'', meta_UploadedBy = 42\<rparr>"

section \<open>Properties\<close>

subsection \<open>Paths\<close>

lemma split_sep_not_Nil: "split_sep p \<noteq> []"
  by (induction p) (auto split: list.splits)

lemma split_sep_trailing: "split_sep (p @ [Separator]) = split_sep p @ [[]]"
  by (induction p) (auto split: list.splits simp: split_sep_not_Nil)

lemma Clean_trailing: "p \<noteq> [] \<Longrightarrow> filepath_Clean (p @ [Separator]) = filepath_Clean p"
  by (simp add: filepath_Clean_def split_sep_trailing clean_elem_def Let_def)

lemma Join_empty_name: "bp \<noteq> [] \<Longrightarrow> filepath_Join [bp, []] = filepath_Clean bp"
  using Clean_trailing[of bp] by (simp add: filepath_Join_def)

text \<open>The final segment of a locator is the name it was built from.\<close>

lemma Base_recovers_name:
  assumes "Separator \<notin> set name" "name \<noteq> []"
  shows "filepath_Base (url @ [Separator] @ name) = name"
proof -
  have strip: "dropWhile (\<lambda>c. c = Separator) (rev name @ Separator # rev url)
                 = rev name @ Separator # rev url"
    using assms by (cases "rev name") (auto dest!: arg_cong[where f=set])
  have last_elem: "takeWhile (\<lambda>c. c \<noteq> Separator) (rev name @ Separator # rev url) = rev name"
    using assms by (subst takeWhile_append2) auto
  show ?thesis using assms strip last_elem by (simp add: filepath_Base_def Let_def)
qed

lemma default_blob_path:
  "filepath_Join [''./uploads'', ''20240102120000_a.txt''] = ''uploads/20240102120000_a.txt''"
  by (simp add: filepath_Join_def filepath_Clean_def clean_elem_def Separator_def Let_def)

lemma default_blob_base:
  "filepath_Base ''http://localhost:50055/files/20240102120000_a.txt'' = ''20240102120000_a.txt''"
  by (simp add: filepath_Base_def Separator_def Let_def)

lemma default_root: "filepath_Clean ''./uploads'' = ''uploads''"
  by (simp add: filepath_Clean_def clean_elem_def Separator_def Let_def)

lemma noon_stamp: "time_Format noon = ''20240102120000''"
  by (simp add: time_Format_def noon_def zero_pad_def digit_def)

subsection \<open>The blob store\<close>

lemma NewLocalStorage_ready:
  "NewLocalStorage bp bu f = (Inr s, f') \<Longrightarrow> storage_ready s f'"
  by (auto simp: NewLocalStorage_def os_MkdirAll_def storage_ready_def
      split: if_splits option.splits entry.splits)

lemma Save_success:
  assumes "LocalStorage_Save s fileName data f = (Inr url, f')"
  shows "filepath_Join [basePath s, fileName] \<noteq> []"
    and "entries f (filepath_Join [basePath s, fileName]) \<noteq> Some Dir"
    and "url = baseURL s @ ''/'' @ fileName"
    and "f' = f\<lparr>entries := (entries f)(filepath_Join [basePath s, fileName] \<mapsto> File data)\<rparr>"
  using assms
  by (auto simp: LocalStorage_Save_def os_Create_def file_Write_def Let_def
      split: if_splits option.splits entry.splits)

lemma Save_accepted:
  assumes "filepath_Join [basePath s, fileName] \<noteq> []"
    and "entries f (filepath_Join [basePath s, fileName]) \<noteq> Some Dir"
    and "\<not> rejects f OpCreate (filepath_Join [basePath s, fileName])"
    and "\<not> rejects f OpWrite (filepath_Join [basePath s, fileName])"
  shows "LocalStorage_Save s fileName data f =
          (Inr (baseURL s @ ''/'' @ fileName),
           f\<lparr>entries := (entries f)(filepath_Join [basePath s, fileName] \<mapsto> File data)\<rparr>)"
  using assms
  by (auto simp: LocalStorage_Save_def os_Create_def file_Write_def Let_def
      split: if_splits option.splits entry.splits)

lemma Get_file:
  "entries f (blob_path s url) = Some (File data) \<Longrightarrow> LocalStorage_Get s url f = Inr data"
  by (simp add: LocalStorage_Get_def blob_path_def os_Open_def io_ReadAll_def)

text \<open>The root is a directory, so no blob is written under the empty name.\<close>

lemma ready_name_nonempty:
  assumes "storage_ready s f" "entries f (filepath_Join [basePath s, fileName]) \<noteq> Some Dir"
  shows "fileName \<noteq> []"
  using assms Join_empty_name[of "basePath s"] by (auto simp: storage_ready_def)

lemma blob_path_locator:
  assumes "Separator \<notin> set fileName" "fileName \<noteq> []"
  shows "blob_path s (baseURL s @ ''/'' @ fileName) = filepath_Join [basePath s, fileName]"
  using Base_recovers_name[OF assms, of "baseURL s"] by (simp add: blob_path_def Separator_def)

lemma Delete_not_exist:
  "entries f (blob_path s fileURL) = None \<Longrightarrow> \<not> rejects f OpRemove (blob_path s fileURL) \<Longrightarrow>
   LocalStorage_Delete s fileURL f = (Inr (), f)"
  by (simp add: LocalStorage_Delete_def blob_path_def os_Remove_def os_IsNotExist_def)

lemma Delete_refused:
  "rejects f OpRemove (blob_path s fileURL) \<Longrightarrow>
   LocalStorage_Delete s fileURL f = (Inl (Wrapped ''failed to delete file'' EREJECTED), f)"
  by (simp add: LocalStorage_Delete_def blob_path_def os_Remove_def os_IsNotExist_def)

text \<open>\<open>os.Remove\<close> of the storage root: refused with \<open>ENOTEMPTY\<close> while a blob lies in it,
  removed when it is empty.\<close>

lemma default_blob_dir: "filepath_Dir ''uploads/20240102120000_a.txt'' = ''uploads''"
  by (simp add: filepath_Dir_def filepath_Clean_def clean_elem_def Separator_def Let_def)

lemma Remove_nonempty_root:
  "os_Remove ''uploads'' stored_fs = (Inl ENOTEMPTY, stored_fs)"
proof -
  have "has_children stored_fs ''uploads''"
    unfolding has_children_def
    by (rule exI[of _ "''uploads/20240102120000_a.txt''"])
      (simp add: stored_fs_def default_blob_dir)
  then show ?thesis by (simp add: os_Remove_def stored_fs_def fresh_fs_def)
qed

lemma Remove_empty_root:
  "fst (os_Remove ''uploads'' fresh_fs) = Inr ()
   \<and> entries (snd (os_Remove ''uploads'' fresh_fs)) ''uploads'' = None"
proof -
  have "\<not> has_children fresh_fs ''uploads''"
    by (auto simp: has_children_def fresh_fs_def split: if_splits)
  then show ?thesis by (simp add: os_Remove_def fresh_fs_def)
qed

text \<open>Under the default root a plain name is joined as it is.\<close>

lemma split_sep_plain: "Separator \<notin> set name \<Longrightarrow> split_sep name = [name]"
  by (induction name) auto

lemma split_sep_last:
  "Separator \<notin> set name \<Longrightarrow> split_sep (p @ Separator # name) = split_sep p @ [name]"
  by (induction p) (auto simp: split_sep_plain split_sep_not_Nil split: list.splits)

lemma join_sep_snoc: "out \<noteq> [] \<Longrightarrow> join_sep (out @ [e]) = join_sep out @ [Separator] @ e"
  by (induction out rule: join_sep.induct) auto

lemma default_Join_plain:
  assumes "Separator \<notin> set name" "name \<noteq> []" "name \<noteq> ''.''" "name \<noteq> ''..''"
  shows "filepath_Join [''./uploads'', name] = ''uploads/'' @ name"
proof -
  have sp: "split_sep (''./uploads'' @ Separator # name) = [''.'', ''uploads'', name]"
    by (subst split_sep_last[OF assms(1)]) (simp add: Separator_def)
  have cl: "filepath_Clean (''./uploads'' @ Separator # name) = ''uploads/'' @ name"
    using assms unfolding filepath_Clean_def sp
    by (simp add: clean_elem_def Separator_def Let_def)
  show ?thesis using cl by (simp add: filepath_Join_def)
qed

lemma fresh_ready: "storage_ready default_storage fresh_fs"
  by (simp add: storage_ready_def default_storage_def fresh_fs_def default_root)

lemma default_Save:
  "LocalStorage_Save default_storage ''20240102120000_a.txt'' data fresh_fs =
     (Inr ''http://localhost:50055/files/20240102120000_a.txt'',
      fresh_fs\<lparr>entries := (entries fresh_fs)(''uploads/20240102120000_a.txt'' \<mapsto> File data)\<rparr>)"
  by (simp add: LocalStorage_Save_def os_Create_def file_Write_def default_storage_def
      fresh_fs_def default_blob_path)

text \<open>Claim C9: for a file name without path separators, a successful \<open>Save\<close> returns the
  locator \<open>baseURL + "/" + name\<close>, the name is the final path segment of that locator, and
  \<open>Get\<close> of the locator returns exactly the saved bytes. The storage root is the
  directory \<open>NewLocalStorage\<close> made.\<close>

theorem Save_Get_round_trip:
  assumes sep: "Separator \<notin> set fileName"
    and ready: "storage_ready s f"
    and save: "LocalStorage_Save s fileName data f = (Inr url, f')"
  shows "url = baseURL s @ ''/'' @ fileName \<and> filepath_Base url = fileName
       \<and> LocalStorage_Get s url f' = Inr data"
proof -
  note S = Save_success[OF save]
  have ne: "fileName \<noteq> []" using ready_name_nonempty[OF ready S(2)] .
  have base: "filepath_Base url = fileName"
    using Base_recovers_name[OF sep ne, of "baseURL s"] S(3) by (simp add: Separator_def)
  have "entries f' (blob_path s url) = Some (File data)"
    using S(4) base by (simp add: blob_path_def)
  then show ?thesis using S(3) base Get_file by simp
qed

theorem Save_Get_round_trip_witness:
  "Separator \<notin> set ''20240102120000_a.txt'' \<and> storage_ready default_storage fresh_fs
   \<and> fst (LocalStorage_Save default_storage ''20240102120000_a.txt'' [1, 2, 3] fresh_fs)
       = Inr ''http://localhost:50055/files/20240102120000_a.txt''
   \<and> filepath_Base ''http://localhost:50055/files/20240102120000_a.txt'' = ''20240102120000_a.txt''
   \<and> LocalStorage_Get default_storage ''http://localhost:50055/files/20240102120000_a.txt''
        (snd (LocalStorage_Save default_storage ''20240102120000_a.txt'' [1, 2, 3] fresh_fs))
       = Inr [1, 2, 3]"
proof -
  have sep: "Separator \<notin> set ''20240102120000_a.txt''" by (simp add: Separator_def)
  have save: "LocalStorage_Save default_storage ''20240102120000_a.txt'' [1, 2, 3] fresh_fs =
      (Inr ''http://localhost:50055/files/20240102120000_a.txt'',
       snd (LocalStorage_Save default_storage ''20240102120000_a.txt'' [1, 2, 3] fresh_fs))"
    by (simp add: default_Save)
  have res: "fst (LocalStorage_Save default_storage ''20240102120000_a.txt'' [1, 2, 3] fresh_fs)
      = Inr ''http://localhost:50055/files/20240102120000_a.txt''"
    by (simp add: default_Save)
  note rt = Save_Get_round_trip[OF sep fresh_ready save]
  from rt have base: "filepath_Base ''http://localhost:50055/files/20240102120000_a.txt''
      = ''20240102120000_a.txt''"
    by (rule conjunct1[OF conjunct2])
  from rt have get: "LocalStorage_Get default_storage
      ''http://localhost:50055/files/20240102120000_a.txt''
      (snd (LocalStorage_Save default_storage ''20240102120000_a.txt'' [1, 2, 3] fresh_fs))
      = Inr [1, 2, 3]"
    by (rule conjunct2[OF conjunct2])
  show ?thesis using sep fresh_ready res base get by blast
qed

text \<open>Claim C10: in every storage state in which a blob already exists under the name,
  \<open>Save\<close> under the same name succeeds as it would on a new name: the collision is no
  error, the new bytes replace the old ones, and \<open>Get\<close> of the shared locator, which
  returned the old bytes before, returns the bytes of the later call.\<close>

theorem Save_replaces_existing_blob:
  assumes sep: "Separator \<notin> set fileName"
    and ready: "storage_ready s f"
    and exists: "entries f (filepath_Join [basePath s, fileName]) = Some (File old)"
    and accepts: "\<not> rejects f OpCreate (filepath_Join [basePath s, fileName])"
                 "\<not> rejects f OpWrite (filepath_Join [basePath s, fileName])"
  shows "LocalStorage_Get s (baseURL s @ ''/'' @ fileName) f = Inr old
       \<and> LocalStorage_Save s fileName new f =
           (Inr (baseURL s @ ''/'' @ fileName),
            f\<lparr>entries := (entries f)(filepath_Join [basePath s, fileName] \<mapsto> File new)\<rparr>)
       \<and> LocalStorage_Get s (baseURL s @ ''/'' @ fileName)
            (snd (LocalStorage_Save s fileName new f)) = Inr new"
proof -
  have nd: "entries f (filepath_Join [basePath s, fileName]) \<noteq> Some Dir" using exists by simp
  have ne: "fileName \<noteq> []" using ready_name_nonempty[OF ready nd] .
  have p: "filepath_Join [basePath s, fileName] \<noteq> []"
    using ne by (auto simp: filepath_Join_def filepath_Clean_def Let_def split: list.splits)
  note sv = Save_accepted[OF p nd accepts, of new]
  note bp = blob_path_locator[OF sep ne, of s]
  show ?thesis using sv bp exists by (simp add: Get_file)
qed

theorem Save_replaces_existing_blob_witness:
  "Separator \<notin> set ''20240102120000_a.txt'' \<and> storage_ready default_storage stored_fs
   \<and> entries stored_fs (filepath_Join [basePath default_storage, ''20240102120000_a.txt''])
       = Some (File [1, 2, 3])
   \<and> LocalStorage_Get default_storage ''http://localhost:50055/files/20240102120000_a.txt''
        stored_fs = Inr [1, 2, 3]
   \<and> fst (LocalStorage_Save default_storage ''20240102120000_a.txt'' [9, 9] stored_fs)
       = Inr ''http://localhost:50055/files/20240102120000_a.txt''
   \<and> LocalStorage_Get default_storage ''http://localhost:50055/files/20240102120000_a.txt''
        (snd (LocalStorage_Save default_storage ''20240102120000_a.txt'' [9, 9] stored_fs))
       = Inr [9, 9]"
proof -
  have sep: "Separator \<notin> set ''20240102120000_a.txt''" by (simp add: Separator_def)
  have ready: "storage_ready default_storage stored_fs"
    by (simp add: storage_ready_def default_storage_def stored_fs_def fresh_fs_def default_root)
  have path: "filepath_Join [basePath default_storage, ''20240102120000_a.txt'']
      = ''uploads/20240102120000_a.txt''"
    by (simp add: default_storage_def default_blob_path)
  have exists: "entries stored_fs (filepath_Join [basePath default_storage, ''20240102120000_a.txt''])
      = Some (File [1, 2, 3])"
    by (simp add: path stored_fs_def)
  have acc: "\<not> rejects stored_fs OpCreate (filepath_Join [basePath default_storage, ''20240102120000_a.txt''])"
    "\<not> rejects stored_fs OpWrite (filepath_Join [basePath default_storage, ''20240102120000_a.txt''])"
    by (simp_all add: stored_fs_def fresh_fs_def)
  have url: "baseURL default_storage @ ''/'' @ ''20240102120000_a.txt''
      = ''http://localhost:50055/files/20240102120000_a.txt''"
    by (simp add: default_storage_def)
  note r = Save_replaces_existing_blob[OF sep ready exists acc, of "[9, 9]", unfolded url]
  from r have before: "LocalStorage_Get default_storage
      ''http://localhost:50055/files/20240102120000_a.txt'' stored_fs = Inr [1, 2, 3]"
    by (rule conjunct1)
  from r have saved: "fst (LocalStorage_Save default_storage ''20240102120000_a.txt'' [9, 9] stored_fs)
      = Inr ''http://localhost:50055/files/20240102120000_a.txt''"
    by simp
  from r have after: "LocalStorage_Get default_storage
      ''http://localhost:50055/files/20240102120000_a.txt''
      (snd (LocalStorage_Save default_storage ''20240102120000_a.txt'' [9, 9] stored_fs))
      = Inr [9, 9]"
    by (rule conjunct2[OF conjunct2])
  show ?thesis using sep ready exists before saved after by blast
qed

subsection \<open>The repository and the wired service\<close>

lemma GetByID_connected: "Repo_GetByID i d = Inr file \<Longrightarrow> connected d"
  by (auto simp: Repo_GetByID_def split: if_splits)

text \<open>No query selects a size: every record read back has \<open>FileSize = 0\<close>.\<close>

lemma Repo_GetByID_FileSize: "Repo_GetByID i d = Inr file \<Longrightarrow> FileSize file = 0"
  by (auto simp: Repo_GetByID_def zero_MediaFile_def split: if_splits list.splits)

lemma GetFile_FileSize:
  "GetFile (media_service s) i w = (Inr file, w') \<Longrightarrow> FileSize file = 0"
  by (auto simp: GetFile_def media_service_def NewMediaUseCase_def
      PostgresMediaFileRepository_def dest: Repo_GetByID_FileSize split: sum.splits)

lemma service_DeleteFile:
  "DeleteFile (media_service s) i w =
     (case Repo_GetByID i (db w) of
        Inl err \<Rightarrow> (Inl ErrFileNotFound, w)
      | Inr file \<Rightarrow>
          (case LocalStorage_Delete s (FileURL file) (fs w) of
             (Inl err, f) \<Rightarrow> (Inl err, w\<lparr>fs := f\<rparr>)
           | (Inr u, f) \<Rightarrow>
               (fst (Repo_Delete i (db w)), w\<lparr>fs := f, db := snd (Repo_Delete i (db w))\<rparr>)))"
  by (simp add: DeleteFile_def media_service_def NewMediaUseCase_def
      PostgresMediaFileRepository_def LocalFileStorage_def
      split: sum.splits prod.splits)

lemma stored_GetByID: "Repo_GetByID 1 stored_db = Inr stored_file"
  by (simp add: Repo_GetByID_def stored_db_def fresh_db_def stored_row_def stored_file_def
      zero_MediaFile_def)

lemma stored_blob_path:
  "blob_path default_storage (FileURL stored_file) = ''uploads/20240102120000_a.txt''"
  by (simp add: blob_path_def stored_file_def default_blob_base default_storage_def
      default_blob_path)

lemma long_name_plain:
  "Separator \<notin> set long_name" "long_name \<noteq> []" "long_name \<noteq> ''.''" "long_name \<noteq> ''..''"
  "length long_name = 256"
  by (auto simp: long_name_def Separator_def dest: arg_cong[where f=length])

lemma long_blob_path: "blob_path default_storage long_locator = ''uploads/'' @ long_name"
proof -
  have "filepath_Base (''http://localhost:50055/files'' @ [Separator] @ long_name) = long_name"
    using long_name_plain(1,2) by (rule Base_recovers_name)
  then have "filepath_Base long_locator = long_name"
    by (simp add: long_locator_def Separator_def)
  then show ?thesis
    using default_Join_plain[OF long_name_plain(1-4)]
    by (simp add: blob_path_def default_storage_def)
qed

lemma long_blob_base: "filepath_Base (''uploads/'' @ long_name) = long_name"
  using Base_recovers_name[OF long_name_plain(1,2), of "''uploads''"]
  by (simp add: Separator_def)

text \<open>Claim C8, as amended: \<open>Delete\<close> returns success when \<open>os.Remove\<close> reports that the
  entry does not exist, that is when the blob is absent and the medium does not refuse
  the removal of its path; it returns the error of a refused removal, also for an absent
  blob. So \<open>DeleteFile\<close> of a record whose blob is gone, on a medium that does not refuse,
  succeeds and removes the row: a later \<open>GetByID\<close> finds no row.\<close>

theorem Delete_not_exist_is_success:
  "(entries f (blob_path s fileURL) = None \<and> \<not> rejects f OpRemove (blob_path s fileURL) \<longrightarrow>
      LocalStorage_Delete s fileURL f = (Inr (), f))
   \<and> (rejects f OpRemove (blob_path s fileURL) \<longrightarrow>
        LocalStorage_Delete s fileURL f = (Inl (Wrapped ''failed to delete file'' EREJECTED), f))
   \<and> (Repo_GetByID id' (db w) = Inr file \<and> entries (fs w) (blob_path s (FileURL file)) = None
        \<and> \<not> rejects (fs w) OpRemove (blob_path s (FileURL file)) \<longrightarrow>
        DeleteFile (media_service s) id' w =
          (Inr (), w\<lparr>db := (db w)\<lparr>media_files := filter (\<lambda>r. col_id r \<noteq> id') (media_files (db w))\<rparr>\<rparr>)
        \<and> Repo_GetByID id' (db (snd (DeleteFile (media_service s) id' w)))
            = Inl (SqlError ErrNoRows))"
proof (intro conjI impI)
  assume "entries f (blob_path s fileURL) = None \<and> \<not> rejects f OpRemove (blob_path s fileURL)"
  then show "LocalStorage_Delete s fileURL f = (Inr (), f)" using Delete_not_exist by blast
next
  assume "rejects f OpRemove (blob_path s fileURL)"
  then show "LocalStorage_Delete s fileURL f = (Inl (Wrapped ''failed to delete file'' EREJECTED), f)"
    by (rule Delete_refused)
next
  assume a: "Repo_GetByID id' (db w) = Inr file \<and> entries (fs w) (blob_path s (FileURL file)) = None
      \<and> \<not> rejects (fs w) OpRemove (blob_path s (FileURL file))"
  then have c: "connected (db w)" using GetByID_connected by blast
  have d: "LocalStorage_Delete s (FileURL file) (fs w) = (Inr (), fs w)"
    using a Delete_not_exist by blast
  show r: "DeleteFile (media_service s) id' w =
      (Inr (), w\<lparr>db := (db w)\<lparr>media_files := filter (\<lambda>r. col_id r \<noteq> id') (media_files (db w))\<rparr>\<rparr>)"
    using a c d by (simp add: service_DeleteFile Repo_Delete_def)
  show "Repo_GetByID id' (db (snd (DeleteFile (media_service s) id' w))) = Inl (SqlError ErrNoRows)"
    using c by (simp add: r Repo_GetByID_def)
qed

theorem Delete_not_exist_is_success_witness:
  "entries fresh_fs (blob_path default_storage (FileURL stored_file)) = None
   \<and> \<not> rejects fresh_fs OpRemove (blob_path default_storage (FileURL stored_file))
   \<and> LocalStorage_Delete default_storage (FileURL stored_file) fresh_fs = (Inr (), fresh_fs)
   \<and> rejects (fs locked_world) OpRemove (blob_path default_storage (FileURL stored_file))
   \<and> LocalStorage_Delete default_storage (FileURL stored_file) (fs locked_world)
       = (Inl (Wrapped ''failed to delete file'' EREJECTED), fs locked_world)
   \<and> Repo_GetByID 1 stored_db = Inr stored_file
   \<and> fst (DeleteFile (media_service default_storage) 1 \<lparr>fs = fresh_fs, db = stored_db\<rparr>) = Inr ()
   \<and> Repo_GetByID 1
        (db (snd (DeleteFile (media_service default_storage) 1 \<lparr>fs = fresh_fs, db = stored_db\<rparr>)))
       = Inl (SqlError ErrNoRows)"
proof -
  have absent: "entries fresh_fs (blob_path default_storage (FileURL stored_file)) = None"
    by (simp add: stored_blob_path fresh_fs_def)
  have open': "\<not> rejects fresh_fs OpRemove (blob_path default_storage (FileURL stored_file))"
    by (simp add: fresh_fs_def)
  have locked: "rejects (fs locked_world) OpRemove (blob_path default_storage (FileURL stored_file))"
    by (simp add: locked_world_def)
  note t = Delete_not_exist_is_success[of fresh_fs default_storage "FileURL stored_file" 1
      "\<lparr>fs = fresh_fs, db = stored_db\<rparr>" stored_file]
  note t' = Delete_not_exist_is_success[of "fs locked_world" default_storage "FileURL stored_file" 1
      "\<lparr>fs = fresh_fs, db = stored_db\<rparr>" stored_file]
  have del: "LocalStorage_Delete default_storage (FileURL stored_file) fresh_fs = (Inr (), fresh_fs)"
    by (rule mp[OF conjunct1[OF t] conjI[OF absent open']])
  have refused: "LocalStorage_Delete default_storage (FileURL stored_file) (fs locked_world)
      = (Inl (Wrapped ''failed to delete file'' EREJECTED), fs locked_world)"
    by (rule mp[OF conjunct1[OF conjunct2[OF t']] locked])
  have found: "Repo_GetByID 1 (db \<lparr>fs = fresh_fs, db = stored_db\<rparr>) = Inr stored_file
      \<and> entries (fs \<lparr>fs = fresh_fs, db = stored_db\<rparr>)
            (blob_path default_storage (FileURL stored_file)) = None
      \<and> \<not> rejects (fs \<lparr>fs = fresh_fs, db = stored_db\<rparr>) OpRemove
            (blob_path default_storage (FileURL stored_file))"
    using absent open' stored_GetByID by simp
  note r = mp[OF conjunct2[OF conjunct2[OF t]] found]
  have ok: "fst (DeleteFile (media_service default_storage) 1 \<lparr>fs = fresh_fs, db = stored_db\<rparr>)
      = Inr ()"
    by (simp add: conjunct1[OF r])
  have gone: "Repo_GetByID 1
        (db (snd (DeleteFile (media_service default_storage) 1 \<lparr>fs = fresh_fs, db = stored_db\<rparr>)))
       = Inl (SqlError ErrNoRows)"
    by (rule conjunct2[OF r])
  show ?thesis using absent open' del locked refused stored_GetByID ok gone by blast
qed

text \<open>Claim C8 as stated fails. After the blob of row 1 was removed out-of-band, on a
  medium that refuses the removal, \<open>Delete\<close> of the absent blob returns the error,
  \<open>DeleteFile\<close> returns it and the row is still there. And on a medium that refuses names
  longer than 255 bytes, \<open>Delete\<close> of a locator whose last segment has 256 returns an
  error although no blob lies under it.\<close>

theorem Delete_absent_blob_counterexample:
  "entries (fs blob_gone_refused_world) (blob_path default_storage (FileURL stored_file)) = None
   \<and> LocalStorage_Delete default_storage (FileURL stored_file) (fs blob_gone_refused_world)
       = (Inl (Wrapped ''failed to delete file'' EREJECTED), fs blob_gone_refused_world)
   \<and> Repo_GetByID 1 (db blob_gone_refused_world) = Inr stored_file
   \<and> DeleteFile (media_service default_storage) 1 blob_gone_refused_world
       = (Inl (Wrapped ''failed to delete file'' EREJECTED), blob_gone_refused_world)
   \<and> Repo_GetByID 1 (db (snd (DeleteFile (media_service default_storage) 1
                                 blob_gone_refused_world))) = Inr stored_file
   \<and> entries name_limit_fs (blob_path default_storage long_locator) = None
   \<and> LocalStorage_Delete default_storage long_locator name_limit_fs
       = (Inl (Wrapped ''failed to delete file'' EREJECTED), name_limit_fs)"
proof -
  have absent: "entries (fs blob_gone_refused_world)
      (blob_path default_storage (FileURL stored_file)) = None"
    by (simp add: stored_blob_path blob_gone_refused_world_def fresh_fs_def)
  have del: "LocalStorage_Delete default_storage (FileURL stored_file) (fs blob_gone_refused_world)
      = (Inl (Wrapped ''failed to delete file'' EREJECTED), fs blob_gone_refused_world)"
    by (rule Delete_refused) (simp add: blob_gone_refused_world_def)
  have found: "Repo_GetByID 1 (db blob_gone_refused_world) = Inr stored_file"
    by (simp add: blob_gone_refused_world_def stored_GetByID)
  have run: "DeleteFile (media_service default_storage) 1 blob_gone_refused_world
      = (Inl (Wrapped ''failed to delete file'' EREJECTED), blob_gone_refused_world)"
    by (simp add: service_DeleteFile found del)
  have kept: "Repo_GetByID 1 (db (snd (DeleteFile (media_service default_storage) 1
      blob_gone_refused_world))) = Inr stored_file"
    by (simp add: run found)
  have absent_long: "entries name_limit_fs (blob_path default_storage long_locator) = None"
    using long_name_plain(2)
    by (simp add: long_blob_path name_limit_fs_def fresh_fs_def)
  have del_long: "LocalStorage_Delete default_storage long_locator name_limit_fs
      = (Inl (Wrapped ''failed to delete file'' EREJECTED), name_limit_fs)"
    using long_blob_base long_name_plain(5)
    by (intro Delete_refused) (simp add: long_blob_path name_limit_fs_def NAME_MAX_def)
  show ?thesis using absent del found run kept absent_long del_long by blast
qed

text \<open>Claim C1, at the input of scenario A (a 3-byte file \<open>a.txt\<close> of type \<open>document\<close> by
  uploader 42): the record \<open>UploadFile\<close> returns has the declared type, the uploader and
  \<open>FileSize = 3\<close>; \<open>GetFile\<close> by the returned id returns the same type and uploader, but
  \<open>FileSize = 0\<close>: the size is neither inserted nor selected.\<close>

theorem scenario_A_size_not_persisted:
  "(case UploadFile (media_service default_storage) noon noon ''a.txt'' ''document'' 42
           [1, 2, 3] fresh_world of
      (Inl err, w) \<Rightarrow> False
    | (Inr file, w) \<Rightarrow>
        FileType file = ''document'' \<and> UploadedBy file = 42 \<and> FileSize file = 3 \<and>
        (case GetFile (media_service default_storage) (ID file) w of
           (Inl err, w') \<Rightarrow> False
         | (Inr got, w') \<Rightarrow>
             ID got = ID file \<and> FileType got = ''document'' \<and> UploadedBy got = 42 \<and>
             FileSize got = 0 \<and> FileSize got \<noteq> FileSize file))"
  by (simp add: UploadFile_def GetFile_def media_service_def NewMediaUseCase_def
      PostgresMediaFileRepository_def LocalFileStorage_def Repo_Create_def Repo_GetByID_def
      row_accepted_def NewMediaFile_def zero_MediaFile_def IsValidFileType_def
      ValidFileTypes_def FileTypeImage_def FileTypeDocument_def FileTypeResume_def
      fresh_world_def fresh_db_def noon_stamp default_Save Let_def)

subsection \<open>The use case\<close>

lemma traced_Save:
  "Save (storage uc) n d w = (r, w') \<Longrightarrow>
   Save (storage (traced uc)) n d (w, log) = (r, (w', log @ [CallSave n d]))"
  by (simp add: traced_def logged_def)

lemma traced_Delete:
  "Delete (storage uc) u w = (r, w') \<Longrightarrow>
   Delete (storage (traced uc)) u (w, log) = (r, (w', log @ [CallDelete u]))"
  by (simp add: traced_def logged_def)

lemma traced_Create:
  "Create (fileRepo uc) f w = (r, w') \<Longrightarrow>
   Create (fileRepo (traced uc)) f (w, log) = (r, (w', log @ [CallCreate f]))"
  by (simp add: traced_def logged_def)

lemma traced_GetByID:
  "GetByID (fileRepo uc) i w = (r, w') \<Longrightarrow>
   GetByID (fileRepo (traced uc)) i (w, log) = (r, (w', log @ [CallGetByID i]))"
  by (simp add: traced_def logged_def)

lemma traced_Delete_record:
  "Delete_record (fileRepo uc) i w = (r, w') \<Longrightarrow>
   Delete_record (fileRepo (traced uc)) i (w, log) = (r, (w', log @ [CallDeleteRecord i]))"
  by (simp add: traced_def logged_def)

lemma IsValidFileType_iff:
  "IsValidFileType t \<longleftrightarrow> t \<in> {''image'', ''document'', ''resume''}"
  by (auto simp: IsValidFileType_def ValidFileTypes_def FileTypeImage_def
      FileTypeDocument_def FileTypeResume_def)

text \<open>The branch on the extension assigns the name the record already has.\<close>

lemma UploadFile_record:
  "(if filepath_Ext fileName \<noteq> []
    then (NewMediaFile tRec fileName fileURL fileType uploadedBy n)\<lparr>FileName := fileName\<rparr>
    else NewMediaFile tRec fileName fileURL fileType uploadedBy n)
   = NewMediaFile tRec fileName fileURL fileType uploadedBy n"
  by (simp add: NewMediaFile_def)

lemma service_Save:
  "Save (storage (media_service s)) n d w =
     (fst (LocalStorage_Save s n d (fs w)), w\<lparr>fs := snd (LocalStorage_Save s n d (fs w))\<rparr>)"
  by (simp add: media_service_def NewMediaUseCase_def LocalFileStorage_def split: prod.splits)

lemma service_Delete:
  "Delete (storage (media_service s)) u w =
     (fst (LocalStorage_Delete s u (fs w)), w\<lparr>fs := snd (LocalStorage_Delete s u (fs w))\<rparr>)"
  by (simp add: media_service_def NewMediaUseCase_def LocalFileStorage_def split: prod.splits)

lemma service_Create:
  "Create (fileRepo (media_service s)) file w =
     (fst (Repo_Create file (db w)), w\<lparr>db := snd (Repo_Create file (db w))\<rparr>)"
  by (simp add: media_service_def NewMediaUseCase_def PostgresMediaFileRepository_def
      split: prod.splits)

lemma service_GetByID:
  "GetByID (fileRepo (media_service s)) i w = (Repo_GetByID i (db w), w)"
  by (simp add: media_service_def NewMediaUseCase_def PostgresMediaFileRepository_def)

text \<open>Claim C6: \<open>UploadFile\<close> with a file type outside \<open>{image, document, resume}\<close> fails with
  \<open>ErrInvalidFileType\<close> and leaves the world as it was, whatever the storage and the
  repository are; around collaborators that log their calls the log stays as it was: no
  \<open>Save\<close> and no \<open>Create\<close> is performed.\<close>

theorem UploadFile_invalid_type_no_effect:
  assumes "fileType \<notin> {''image'', ''document'', ''resume''}"
  shows "UploadFile uc tName tRec fileName fileType uploadedBy data w = (Inl ErrInvalidFileType, w)
       \<and> UploadFile (traced uc) tName tRec fileName fileType uploadedBy data (w, log)
           = (Inl ErrInvalidFileType, (w, log))"
  using assms by (simp add: UploadFile_def IsValidFileType_iff)

theorem UploadFile_invalid_type_no_effect_witness:
  "''video'' \<notin> {''image'', ''document'', ''resume''}
   \<and> UploadFile (media_service default_storage) noon noon ''a.txt'' ''video'' 42 [1, 2, 3]
        fresh_world = (Inl ErrInvalidFileType, fresh_world)
   \<and> UploadFile (traced (media_service default_storage)) noon noon ''a.txt'' ''video'' 42
        [1, 2, 3] (fresh_world, []) = (Inl ErrInvalidFileType, (fresh_world, []))"
proof -
  have outside: "''video'' \<notin> {''image'', ''document'', ''resume''}" by simp
  note t = UploadFile_invalid_type_no_effect[of "''video''" "media_service default_storage"
      noon noon "''a.txt''" 42 "[1, 2, 3]" fresh_world "[]", OF outside]
  show ?thesis using outside t by blast
qed

text \<open>Claim C2: when \<open>Save\<close> of the blob succeeds and \<open>Create\<close> of the record fails,
  \<open>UploadFile\<close> returns the error of \<open>Create\<close> and no record, whatever the cleanup
  \<open>Delete\<close> returns, and leaves the world that \<open>Delete\<close> of the just-written locator
  leaves; the calls it makes are \<open>Save\<close>, \<open>Create\<close>, then \<open>Delete\<close> of that locator.\<close>

theorem UploadFile_compensates:
  assumes valid: "IsValidFileType fileType"
    and save: "Save (storage uc) (time_Format tName @ ''_'' @ fileName) data w = (Inr fileURL, w1)"
    and create: "Create (fileRepo uc)
                   (NewMediaFile tRec fileName fileURL fileType uploadedBy (int (length data))) w1
                 = (Inl err, w2)"
  shows "UploadFile uc tName tRec fileName fileType uploadedBy data w
           = (Inl err, snd (Delete (storage uc) fileURL w2))
       \<and> UploadFile (traced uc) tName tRec fileName fileType uploadedBy data (w, log)
           = (Inl err, (snd (Delete (storage uc) fileURL w2),
                log @ [CallSave (time_Format tName @ ''_'' @ fileName) data,
                       CallCreate (NewMediaFile tRec fileName fileURL fileType uploadedBy
                                     (int (length data))),
                       CallDelete fileURL]))"
proof -
  obtain r w3 where del: "Delete (storage uc) fileURL w2 = (r, w3)"
    by (cases "Delete (storage uc) fileURL w2")
  show ?thesis
    using valid save create del traced_Save[OF save, of log]
      traced_Create[OF create, of "log @ [CallSave (time_Format tName @ ''_'' @ fileName) data]"]
      traced_Delete[OF del]
    by (simp add: UploadFile_def Let_def UploadFile_record)
qed

theorem UploadFile_compensates_witness:
  "IsValidFileType ''document''
   \<and> fst (Save (storage (media_service default_storage)) (time_Format noon @ ''_'' @ ''a.txt'')
            [1, 2, 3] unknown_user_world)
       = Inr ''http://localhost:50055/files/20240102120000_a.txt''
   \<and> entries (fs (snd (Save (storage (media_service default_storage))
                          (time_Format noon @ ''_'' @ ''a.txt'') [1, 2, 3] unknown_user_world)))
        ''uploads/20240102120000_a.txt'' = Some (File [1, 2, 3])
   \<and> fst (UploadFile (traced (media_service default_storage)) noon noon ''a.txt'' ''document''
            42 [1, 2, 3] (unknown_user_world, []))
       = Inl (SqlError ErrConstraint)
   \<and> snd (snd (UploadFile (traced (media_service default_storage)) noon noon ''a.txt''
                 ''document'' 42 [1, 2, 3] (unknown_user_world, [])))
       = [CallSave ''20240102120000_a.txt'' [1, 2, 3],
          CallCreate (NewMediaFile noon ''a.txt''
                        ''http://localhost:50055/files/20240102120000_a.txt'' ''document'' 42 3),
          CallDelete ''http://localhost:50055/files/20240102120000_a.txt'']
   \<and> entries (fs (fst (snd (UploadFile (traced (media_service default_storage)) noon noon
                               ''a.txt'' ''document'' 42 [1, 2, 3] (unknown_user_world, [])))))
        ''uploads/20240102120000_a.txt'' = None"
proof -
  let ?S = "media_service default_storage"
  let ?url = "''http://localhost:50055/files/20240102120000_a.txt''"
  let ?w1 = "unknown_user_world\<lparr>fs := fresh_fs\<lparr>entries :=
      (entries fresh_fs)(''uploads/20240102120000_a.txt'' \<mapsto> File [1, 2, 3])\<rparr>\<rparr>"
  have valid: "IsValidFileType ''document''" by (simp add: IsValidFileType_iff)
  have saved: "Save (storage ?S) ''20240102120000_a.txt'' [1, 2, 3] unknown_user_world
      = (Inr ?url, ?w1)"
    by (simp add: service_Save default_Save unknown_user_world_def)
  have save: "Save (storage ?S) (time_Format noon @ ''_'' @ ''a.txt'') [1, 2, 3] unknown_user_world
      = (Inr ?url, ?w1)"
    by (simp add: noon_stamp saved)
  have create: "Create (fileRepo ?S) (NewMediaFile noon ''a.txt'' ?url ''document'' 42
      (int (length [1, 2, 3 :: byte]))) ?w1 = (Inl (SqlError ErrConstraint), ?w1)"
    by (simp add: service_Create Repo_Create_def row_accepted_def NewMediaFile_def
        unknown_user_world_def fresh_db_def)
  have del: "Delete (storage ?S) ?url ?w1 = (Inr (), unknown_user_world)"
    by (simp add: service_Delete LocalStorage_Delete_def os_Remove_def default_blob_base
        default_storage_def default_blob_path unknown_user_world_def fresh_fs_def)
  note t = UploadFile_compensates[OF valid save create, of "[]"]
  have run: "UploadFile (traced ?S) noon noon ''a.txt'' ''document'' 42 [1, 2, 3]
      (unknown_user_world, [])
      = (Inl (SqlError ErrConstraint), (unknown_user_world,
          [CallSave ''20240102120000_a.txt'' [1, 2, 3],
           CallCreate (NewMediaFile noon ''a.txt'' ?url ''document'' 42 3),
           CallDelete ?url]))"
    using conjunct2[OF t] by (simp add: del noon_stamp)
  have gone: "entries (fs unknown_user_world) ''uploads/20240102120000_a.txt'' = None"
    by (simp add: unknown_user_world_def fresh_fs_def)
  show ?thesis using valid gone by (simp add: noon_stamp saved run)
qed

text \<open>Claim C7: \<open>DeleteFile\<close> of an existing record. When \<open>Delete\<close> of the blob fails,
  \<open>DeleteFile\<close> returns that error and leaves the world as the failed \<open>Delete\<close> left it;
  the calls are \<open>GetByID\<close> and \<open>Delete\<close> of the blob only, the repository's \<open>Delete\<close> is not
  invoked. When it succeeds, the repository's \<open>Delete\<close> runs after it and gives the
  result.\<close>

theorem DeleteFile_fail_closed:
  assumes found: "GetByID (fileRepo uc) id' w = (Inr file, w1)"
  shows "(case Delete (storage uc) (FileURL file) w1 of
            (Inl err, w2) \<Rightarrow>
              DeleteFile uc id' w = (Inl err, w2) \<and>
              DeleteFile (traced uc) id' (w, log)
                = (Inl err, (w2, log @ [CallGetByID id', CallDelete (FileURL file)]))
          | (Inr u, w2) \<Rightarrow>
              DeleteFile uc id' w = Delete_record (fileRepo uc) id' w2 \<and>
              DeleteFile (traced uc) id' (w, log)
                = (fst (Delete_record (fileRepo uc) id' w2),
                   (snd (Delete_record (fileRepo uc) id' w2),
                    log @ [CallGetByID id', CallDelete (FileURL file), CallDeleteRecord id'])))"
proof -
  obtain r w2 where del: "Delete (storage uc) (FileURL file) w1 = (r, w2)"
    by (cases "Delete (storage uc) (FileURL file) w1")
  obtain r' w3 where rec: "Delete_record (fileRepo uc) id' w2 = (r', w3)"
    by (cases "Delete_record (fileRepo uc) id' w2")
  show ?thesis
    using found del rec traced_GetByID[OF found, of log] traced_Delete[OF del]
      traced_Delete_record[OF rec]
    by (cases r) (simp_all add: DeleteFile_def)
qed

theorem DeleteFile_fail_closed_witness:
  "GetByID (fileRepo (media_service default_storage)) 1 locked_world = (Inr stored_file, locked_world)
   \<and> Delete (storage (media_service default_storage)) (FileURL stored_file) locked_world
       = (Inl (Wrapped ''failed to delete file'' EREJECTED), locked_world)
   \<and> DeleteFile (media_service default_storage) 1 locked_world
       = (Inl (Wrapped ''failed to delete file'' EREJECTED), locked_world)
   \<and> DeleteFile (traced (media_service default_storage)) 1 (locked_world, [])
       = (Inl (Wrapped ''failed to delete file'' EREJECTED),
          (locked_world, [CallGetByID 1, CallDelete (FileURL stored_file)]))
   \<and> GetFile (media_service default_storage) 1 locked_world = (Inr stored_file, locked_world)"
proof -
  let ?S = "media_service default_storage"
  have found: "GetByID (fileRepo ?S) 1 locked_world = (Inr stored_file, locked_world)"
    by (simp add: service_GetByID locked_world_def stored_GetByID)
  have del: "Delete (storage ?S) (FileURL stored_file) locked_world
      = (Inl (Wrapped ''failed to delete file'' EREJECTED), locked_world)"
    by (simp add: service_Delete LocalStorage_Delete_def os_Remove_def os_IsNotExist_def
        stored_blob_path[unfolded blob_path_def] locked_world_def stored_fs_def fresh_fs_def)
  note t = DeleteFile_fail_closed[OF found, of "[]"]
  have run: "DeleteFile ?S 1 locked_world
        = (Inl (Wrapped ''failed to delete file'' EREJECTED), locked_world)
      \<and> DeleteFile (traced ?S) 1 (locked_world, [])
        = (Inl (Wrapped ''failed to delete file'' EREJECTED),
           (locked_world, [CallGetByID 1, CallDelete (FileURL stored_file)]))"
    using t by (simp add: del)
  have still: "GetFile ?S 1 locked_world = (Inr stored_file, locked_world)"
    by (simp add: GetFile_def found)
  show ?thesis using found del run still by blast
qed

subsection \<open>The gateway relay\<close>

lemma payload_append: "payload (xs @ ys) = payload xs @ payload ys"
  by (induction xs rule: payload.induct) simp_all

lemma payload_chunks: "payload (map Chunk cs) = concat cs"
  by (induction cs) simp_all

lemma file_Read_bytes:
  assumes "file_Read cap r = (ReadBytes bs, r')"
  shows "bs @ unread r' = unread r" and "length bs \<le> cap"
    and "set (schedule r') \<subseteq> set (schedule r)"
  using assms
  by (auto simp: file_Read_def split: if_splits list.splits option.splits)

lemma file_Read_EOF: "file_Read cap r = (ReadEOF, r') \<Longrightarrow> unread r = []"
  by (auto simp: file_Read_def split: if_splits list.splits option.splits)

lemma file_Read_Failure: "file_Read cap r = (ReadFailure, r') \<Longrightarrow> None \<in> set (schedule r)"
  by (auto simp: file_Read_def split: if_splits list.splits option.splits)

lemma stream_Send_ok:
  "stream_Send fr st = (Inr u, st') \<Longrightarrow> st' = st\<lparr>sent := sent st @ [fr]\<rparr>"
  by (auto simp: stream_Send_def split: option.splits if_splits)

lemma stream_Send_fail:
  "stream_Send fr st = (Inl e, st') \<Longrightarrow> st' = st \<and> breaks_after st \<noteq> None"
  by (auto simp: stream_Send_def split: option.splits if_splits)

text \<open>However the loop ends, the chunks it sent are a prefix of the file, each within the
  buffer; when it ends at \<open>io.EOF\<close> they are the whole file.\<close>

lemma send_chunks_sent:
  "send_chunks r st = (ex, st') \<Longrightarrow>
     \<exists>cs rest. st' = st\<lparr>sent := sent st @ map Chunk cs\<rparr> \<and> concat cs @ rest = unread r
        \<and> (\<forall>c \<in> set cs. length c \<le> ChunkSize) \<and> (ex = AllSent \<longrightarrow> rest = [])"
proof (induction r st arbitrary: ex st' rule: send_chunks.induct)
  case (1 r st)
  obtain res r1 where rd: "file_Read ChunkSize r = (res, r1)" by (cases "file_Read ChunkSize r")
  show ?case
  proof (cases res)
    case ReadEOF
    then have "st' = st" "unread r = []" using "1.prems" rd file_Read_EOF
      by (auto simp: send_chunks.simps[of r st])
    then show ?thesis by (intro exI[of _ "[]"]) simp
  next
    case ReadFailure
    then have "st' = st" "ex = ReadFailed" using "1.prems" rd
      by (auto simp: send_chunks.simps[of r st])
    then show ?thesis by (intro exI[of _ "[]"] exI[of _ "unread r"]) simp
  next
    case (ReadBytes bs)
    note rb = file_Read_bytes[OF rd[unfolded ReadBytes]]
    obtain sr st1 where sd: "stream_Send (Chunk bs) st = (sr, st1)"
      by (cases "stream_Send (Chunk bs) st")
    show ?thesis
    proof (cases sr)
      case (Inl e)
      then have "st' = st" "ex = SendFailed" using "1.prems" rd ReadBytes sd stream_Send_fail
        by (auto simp: send_chunks.simps[of r st])
      then show ?thesis by (intro exI[of _ "[]"] exI[of _ "unread r"]) simp
    next
      case (Inr u)
      then have st1: "st1 = st\<lparr>sent := sent st @ [Chunk bs]\<rparr>" using sd stream_Send_ok by blast
      have rec: "send_chunks r1 st1 = (ex, st')"
        using "1.prems" rd ReadBytes sd Inr by (simp add: send_chunks.simps[of r st])
      from "1.IH"[OF rd[symmetric] _ sd[symmetric] _ rec] ReadBytes Inr
      obtain cs rest where ih: "st' = st1\<lparr>sent := sent st1 @ map Chunk cs\<rparr>"
        "concat cs @ rest = unread r1" "\<forall>c \<in> set cs. length c \<le> ChunkSize"
        "ex = AllSent \<longrightarrow> rest = []"
        by auto
      show ?thesis
        using ih rb st1
        by (intro exI[of _ "bs # cs"] exI[of _ rest]) auto
    qed
  qed
qed

text \<open>With no failing read and a transport that holds, the loop reaches \<open>io.EOF\<close>.\<close>

lemma send_chunks_completes:
  "None \<notin> set (schedule r) \<Longrightarrow> breaks_after st = None \<Longrightarrow> fst (send_chunks r st) = AllSent"
proof (induction r st rule: send_chunks.induct)
  case (1 r st)
  obtain res r1 where rd: "file_Read ChunkSize r = (res, r1)" by (cases "file_Read ChunkSize r")
  show ?case
  proof (cases res)
    case ReadEOF
    then show ?thesis using rd by (simp add: send_chunks.simps[of r st])
  next
    case ReadFailure
    then show ?thesis using rd file_Read_Failure "1.prems" by blast
  next
    case (ReadBytes bs)
    note rb = file_Read_bytes[OF rd[unfolded ReadBytes]]
    have sd: "stream_Send (Chunk bs) st = (Inr (), st\<lparr>sent := sent st @ [Chunk bs]\<rparr>)"
      using "1.prems" by (simp add: stream_Send_def)
    have "fst (send_chunks r1 (st\<lparr>sent := sent st @ [Chunk bs]\<rparr>)) = AllSent"
      using "1.IH"[OF rd[symmetric] _ sd[symmetric]] ReadBytes rb "1.prems" by auto
    then show ?thesis using rd ReadBytes sd by (simp add: send_chunks.simps[of r st])
  qed
qed

text \<open>Claim C4: for every content of the multipart file and every way its successive
  reads cut it (the schedule of the reader, none of them failing), on a fresh stream that
  holds, the relay sends the metadata frame and then chunk frames whose concatenation in
  send order is exactly the content of the file; each chunk fits the buffer, and the
  response is the server's answer to these frames.\<close>

theorem relay_chunks_carry_the_file:
  assumes within: "body_length req \<le> MaxFileSize"
    and part: "form_file req = Some (filename, file)"
    and readable: "None \<notin> set (schedule file)"
    and fresh: "sent st = []"
    and holds: "breaks_after st = None"
  shows "\<exists>m cs. m = \<lparr>meta_FileName = filename,
                      meta_FileType = (if post_file_type req = [] then ''document''
                                       else post_file_type req),
                      meta_UploadedBy = user_id req\<rparr>
           \<and> MediaHandler_UploadFile req (Some st)
               = ((case reply st (Metadata m # map Chunk cs) of
                     Inl err \<Rightarrow> StatusInternalServerError ''Upload failed: ''
                   | Inr created \<Rightarrow> StatusCreated created),
                  Some (st\<lparr>sent := Metadata m # map Chunk cs\<rparr>))
           \<and> concat cs = unread file
           \<and> payload (Metadata m # map Chunk cs) = unread file
           \<and> (\<forall>c \<in> set cs. length c \<le> ChunkSize)"
proof -
  let ?m = "\<lparr>meta_FileName = filename,
             meta_FileType = (if post_file_type req = [] then ''document'' else post_file_type req),
             meta_UploadedBy = user_id req\<rparr>"
  let ?st1 = "st\<lparr>sent := [Metadata ?m]\<rparr>"
  have s1: "stream_Send (Metadata ?m) st = (Inr (), ?st1)"
    using fresh holds by (simp add: stream_Send_def)
  obtain ex st2 where sc: "send_chunks file ?st1 = (ex, st2)" by (cases "send_chunks file ?st1")
  have ex: "ex = AllSent" using send_chunks_completes[OF readable, of ?st1] holds sc by simp
  from send_chunks_sent[OF sc] ex obtain cs where
    cs: "st2 = st\<lparr>sent := Metadata ?m # map Chunk cs\<rparr>" "concat cs = unread file"
      "\<forall>c \<in> set cs. length c \<le> ChunkSize"
    by auto
  have "MediaHandler_UploadFile req (Some st)
      = ((case reply st (Metadata ?m # map Chunk cs) of
            Inl err \<Rightarrow> StatusInternalServerError ''Upload failed: ''
          | Inr created \<Rightarrow> StatusCreated created),
         Some (st\<lparr>sent := Metadata ?m # map Chunk cs\<rparr>))"
    using within part s1 sc ex cs(1)
    by (simp add: MediaHandler_UploadFile_def stream_CloseAndRecv_def Let_def split: sum.splits)
  then show ?thesis using cs by (auto simp: payload_chunks)
qed

lemma five_bytes_relayed:
  "MediaHandler_UploadFile five_bytes_request (Some idle_stream) =
     (StatusInternalServerError ''Upload failed: '',
      Some (idle_stream\<lparr>sent := [Metadata a_txt_metadata, Chunk [1, 2], Chunk [], Chunk [3],
                                   Chunk [4, 5]]\<rparr>))"
  by (simp add: MediaHandler_UploadFile_def five_bytes_request_def idle_stream_def
      a_txt_metadata_def MaxFileSize_def stream_Send_def stream_CloseAndRecv_def
      send_chunks.simps file_Read_def ChunkSize_def Let_def)

theorem relay_chunks_carry_the_file_witness:
  "body_length five_bytes_request \<le> MaxFileSize
   \<and> form_file five_bytes_request
       = Some (''a.txt'', \<lparr>unread = [1, 2, 3, 4, 5], schedule = [Some 2, Some 0, Some 1]\<rparr>)
   \<and> None \<notin> set [Some 2, Some 0, Some (1::nat)]
   \<and> sent idle_stream = [] \<and> breaks_after idle_stream = None
   \<and> (\<exists>cs. snd (MediaHandler_UploadFile five_bytes_request (Some idle_stream))
               = Some (idle_stream\<lparr>sent := Metadata a_txt_metadata # map Chunk cs\<rparr>)
             \<and> concat cs = [1, 2, 3, 4, 5])
   \<and> payload [Metadata a_txt_metadata, Chunk [1, 2], Chunk [], Chunk [3], Chunk [4, 5]]
       = [1, 2, 3, 4, 5]"
proof -
  let ?file = "\<lparr>unread = [1, 2, 3, 4, 5 :: byte], schedule = [Some 2, Some 0, Some (1::nat)]\<rparr>"
  have within: "body_length five_bytes_request \<le> MaxFileSize"
    by (simp add: five_bytes_request_def MaxFileSize_def)
  have part: "form_file five_bytes_request = Some (''a.txt'', ?file)"
    by (simp add: five_bytes_request_def)
  have readable: "None \<notin> set (schedule ?file)" by simp
  have fresh: "sent idle_stream = []" and holds: "breaks_after idle_stream = None"
    by (simp_all add: idle_stream_def)
  from relay_chunks_carry_the_file[OF within part readable fresh holds]
  obtain m cs where r:
    "m = \<lparr>meta_FileName = ''a.txt'',
          meta_FileType = (if post_file_type five_bytes_request = [] then ''document''
                           else post_file_type five_bytes_request),
          meta_UploadedBy = user_id five_bytes_request\<rparr>"
    "snd (MediaHandler_UploadFile five_bytes_request (Some idle_stream))
       = Some (idle_stream\<lparr>sent := Metadata m # map Chunk cs\<rparr>)"
    "concat cs = unread ?file"
    by auto
  have m: "m = a_txt_metadata"
    using r(1) by (simp add: five_bytes_request_def a_txt_metadata_def)
  have ex: "\<exists>cs. snd (MediaHandler_UploadFile five_bytes_request (Some idle_stream))
               = Some (idle_stream\<lparr>sent := Metadata a_txt_metadata # map Chunk cs\<rparr>)
             \<and> concat cs = [1, 2, 3, 4, 5]"
    using r(2,3) m by auto
  have pl: "payload [Metadata a_txt_metadata, Chunk [1, 2], Chunk [], Chunk [3], Chunk [4, 5]]
       = [1, 2, 3, 4, 5]"
    by simp
  show ?thesis using within part readable fresh holds ex pl by simp
qed

subsection \<open>The receiving side\<close>

lemma receive_frame_error: "receive_frame mx fr ss = Inl e \<Longrightarrow> e = ProtocolViolation"
  by (auto simp: receive_frame_def split: frame.splits if_splits)

lemma receive_frames_error: "receive_frames mx frs ss = Inl e \<Longrightarrow> e = ProtocolViolation"
  by (induction frs arbitrary: ss) (auto split: sum.splits dest: receive_frame_error)

lemma receive_frame_ok:
  assumes "receive_frame mx fr ss = Inr ss'"
  shows "buffer ss' = buffer ss @ payload [fr]"
    and "length (buffer ss) \<le> mx \<Longrightarrow> length (buffer ss') \<le> mx"
    and "metadata_received ss'"
  using assms by (auto simp: receive_frame_def split: frame.splits if_splits)

text \<open>The buffer of an accepted sequence is its payload and stays within the maximum.\<close>

lemma receive_frames_ok:
  assumes "receive_frames mx frs ss = Inr ss'"
  shows "buffer ss' = buffer ss @ payload frs
       \<and> (length (buffer ss) \<le> mx \<longrightarrow> length (buffer ss') \<le> mx)"
  using assms
proof (induction frs arbitrary: ss)
  case Nil
  then show ?case by simp
next
  case (Cons fr frs)
  then obtain s1 where s1: "receive_frame mx fr ss = Inr s1" "receive_frames mx frs s1 = Inr ss'"
    by (auto split: sum.splits)
  from receive_frame_ok[OF s1(1)] Cons.IH[OF s1(2)] show ?case
    by (cases fr) auto
qed

lemma receive_frames_oversized:
  assumes "mx < length (payload frs)"
  shows "receive_frames mx frs new_session = Inl ProtocolViolation"
proof (cases "receive_frames mx frs new_session")
  case (Inl e)
  then show ?thesis using receive_frames_error by blast
next
  case (Inr ss)
  from receive_frames_ok[OF Inr] assms show ?thesis by (auto simp: new_session_def)
qed

lemma receive_second_metadata:
  "metadata_received ss \<Longrightarrow> receive_frames mx (mid @ Metadata m # post) ss = Inl ProtocolViolation"
proof (induction mid arbitrary: ss)
  case Nil
  then show ?case by (simp add: receive_frame_def)
next
  case (Cons fr mid)
  show ?case
  proof (cases "receive_frame mx fr ss")
    case (Inl e)
    then show ?thesis using receive_frame_error by fastforce
  next
    case (Inr s1)
    then show ?thesis using Cons.IH[OF receive_frame_ok(3)[OF Inr]] by simp
  qed
qed

lemma receive_two_metadata:
  "receive_frames mx (pre @ Metadata m1 # mid @ Metadata m2 # post) ss = Inl ProtocolViolation"
proof (induction pre arbitrary: ss)
  case Nil
  show ?case
  proof (cases "receive_frame mx (Metadata m1) ss")
    case (Inl e)
    then show ?thesis using receive_frame_error by fastforce
  next
    case (Inr s1)
    then show ?thesis using receive_second_metadata[OF receive_frame_ok(3)[OF Inr]] by simp
  qed
next
  case (Cons fr pre)
  show ?case
  proof (cases "receive_frame mx fr ss")
    case (Inl e)
    then show ?thesis using receive_frame_error by fastforce
  next
    case (Inr s1)
    then show ?thesis using Cons.IH by simp
  qed
qed

text \<open>Claim C3: a session whose chunk frames carry more bytes than the maximum (10 MiB
  as configured: \<open>MaxFileSize\<close>) is failed by the receiving side with a protocol violation;
  the world is unchanged and no method of the use case is called, so no MediaFile is
  created; and the buffer of whatever the receiver accepts never exceeds the maximum.\<close>

theorem oversized_session_rejected:
  assumes "maximum < length (payload frames)"
  shows "serve_upload uc maximum tName tRec frames w = (Inl ProtocolViolation, w)
       \<and> serve_upload (traced uc) maximum tName tRec frames (w, log)
           = (Inl ProtocolViolation, (w, log))
       \<and> (\<forall>accepted ss. receive_frames maximum accepted new_session = Inr ss
             \<longrightarrow> length (buffer ss) \<le> maximum)"
proof (intro conjI allI impI)
  show "serve_upload uc maximum tName tRec frames w = (Inl ProtocolViolation, w)"
    using receive_frames_oversized[OF assms] by (simp add: serve_upload_def)
  show "serve_upload (traced uc) maximum tName tRec frames (w, log)
      = (Inl ProtocolViolation, (w, log))"
    using receive_frames_oversized[OF assms] by (simp add: serve_upload_def)
next
  fix accepted ss
  assume "receive_frames maximum accepted new_session = Inr ss"
  from receive_frames_ok[OF this] show "length (buffer ss) \<le> maximum"
    by (auto simp: new_session_def)
qed

theorem oversized_session_rejected_witness:
  "4 < length (payload [Metadata a_txt_metadata, Chunk [1, 2, 3], Chunk [4, 5]])
   \<and> serve_upload (media_service default_storage) 4 noon noon
        [Metadata a_txt_metadata, Chunk [1, 2, 3], Chunk [4, 5]] fresh_world
       = (Inl ProtocolViolation, fresh_world)
   \<and> serve_upload (traced (media_service default_storage)) 4 noon noon
        [Metadata a_txt_metadata, Chunk [1, 2, 3], Chunk [4, 5]] (fresh_world, [])
       = (Inl ProtocolViolation, (fresh_world, []))
   \<and> fst (serve_upload (media_service default_storage) 5 noon noon
        [Metadata a_txt_metadata, Chunk [1, 2, 3], Chunk [4, 5]] fresh_world)
       = Inr \<lparr>ID = 1, FileName = ''a.txt'',
              FileURL = ''http://localhost:50055/files/20240102120000_a.txt'',
              UploadedBy = 42, UploadedAt = noon, FileType = ''document'', FileSize = 5\<rparr>"
proof -
  have over: "4 < length (payload [Metadata a_txt_metadata, Chunk [1, 2, 3], Chunk [4, 5]])"
    by simp
  note t = oversized_session_rejected[OF over, of "media_service default_storage" noon noon
      fresh_world "[]"]
  have fits: "fst (serve_upload (media_service default_storage) 5 noon noon
        [Metadata a_txt_metadata, Chunk [1, 2, 3], Chunk [4, 5]] fresh_world)
       = Inr \<lparr>ID = 1, FileName = ''a.txt'',
              FileURL = ''http://localhost:50055/files/20240102120000_a.txt'',
              UploadedBy = 42, UploadedAt = noon, FileType = ''document'', FileSize = 5\<rparr>"
    by (simp add: serve_upload_def receive_frame_def new_session_def a_txt_metadata_def
        UploadFile_def IsValidFileType_iff noon_stamp service_Save service_Create
        fresh_world_def default_Save Repo_Create_def row_accepted_def fresh_db_def
        NewMediaFile_def Let_def)
  show ?thesis using over conjunct1[OF t] conjunct1[OF conjunct2[OF t]] fits by blast
qed

text \<open>Claim C5: the receiving side enforces the frame grammar. A session whose first
  frame is a chunk, and a session in which a second metadata frame arrives, fail with a
  protocol violation; the world is unchanged and no method of the use case is called, so
  no MediaFile is produced.\<close>

theorem frame_grammar_enforced:
  "serve_upload uc maximum tName tRec (Chunk bs # frames) w = (Inl ProtocolViolation, w)
   \<and> serve_upload (traced uc) maximum tName tRec (Chunk bs # frames) (w, log)
       = (Inl ProtocolViolation, (w, log))
   \<and> serve_upload uc maximum tName tRec (pre @ Metadata m1 # mid @ Metadata m2 # post) w
       = (Inl ProtocolViolation, w)
   \<and> serve_upload (traced uc) maximum tName tRec (pre @ Metadata m1 # mid @ Metadata m2 # post)
        (w, log)
       = (Inl ProtocolViolation, (w, log))"
  by (simp add: serve_upload_def receive_two_metadata receive_frame_def new_session_def)

theorem frame_grammar_enforced_witness:
  "serve_upload (media_service default_storage) MaxFileSize noon noon
     [Chunk [1, 2, 3], Metadata a_txt_metadata] fresh_world = (Inl ProtocolViolation, fresh_world)
   \<and> serve_upload (media_service default_storage) MaxFileSize noon noon
       [Metadata a_txt_metadata, Chunk [1, 2, 3], Metadata a_txt_metadata] fresh_world
       = (Inl ProtocolViolation, fresh_world)"
proof -
  note t = frame_grammar_enforced[of "media_service default_storage" MaxFileSize noon noon
      "[1, 2, 3]" "[Metadata a_txt_metadata]" fresh_world "[]" "[]" a_txt_metadata
      "[Chunk [1, 2, 3]]" a_txt_metadata "[]"]
  show ?thesis using conjunct1[OF t] conjunct1[OF conjunct2[OF conjunct2[OF t]]] by simp
qed

end
